theory Spec2Isabelle
  imports Complex_Main
begin

section \<open>The CLSM training driver (clsm\_pytorch.py)\<close>

text \<open>
  The development embeds the control loop of \<^verbatim>\<open>clsm_pytorch.py\<close>: the start-up code
  under \<^verbatim>\<open>__main__\<close>, \<^verbatim>\<open>save_checkpoint\<close> and \<^verbatim>\<open>run\<close> with its training loop,
  validation loop and end-of-epoch checkpoint decision.

  Conventions.
  \<^item> Python floats and tensor scalars are idealised as \<^typ>\<open>real\<close>: every sum, quotient
    and comparison is exact. Not-a-number values and rounding to single or double
    precision are outside the model.
  \<^item> An exception is a value \<open>Inl (e, s)\<close>: the error together with the state of
    the program when it was raised, so that what was printed and saved before the
    failure stays visible.
  \<^item> The collaborators that are imported from elsewhere (the CDSSM network, the loss,
    the optimiser, \<^verbatim>\<open>recall_score\<close>, \<^verbatim>\<open>WikiDataset\<close>, \<^verbatim>\<open>DataLoader\<close>) are fields
    of a record \<open>ext\<close> that every function takes as its first argument.
  \<^item> Wall-clock time (\<^verbatim>\<open>beginning_time\<close>, \<^verbatim>\<open>elapsed_time\<close>), device placement, the
    experiment tracker, the summary logger and the text of the checkpoint directory
    name are left out: they feed no branch and no value that is modelled.
\<close>

subsection \<open>Errors, objects, output\<close>

datatype py_error =
    ZeroDivisionError
  | NameError string
  | TypeError
  | FileNotFoundError string

text \<open>What \<^verbatim>\<open>joblib.load\<close> returns: a list of examples, or some other object.\<close>

datatype ('x, 'd) pyobj = PyList "'x list" | PyObj 'd

text \<open>The lines the program prints. Reports carry the formatted values.\<close>

datatype line =
    Loading string
  | LoadingSparseEvidences
  | LoadingClaimsData
  | CreatedModel
  | CreatedDataset
  | Training
  | TrainReport nat real real real real
    \<comment> \<open>epoch, progress, training loss, training accuracy, training recall\<close>
  | RunningValidation
  | ValReport nat real real real real
    \<comment> \<open>epoch, progress, loss, accuracy, recall\<close>
  | MeanAccuracy nat real
  | SavingNewBest
  | DidNotImprove

record 'm checkpoint =
  ck_epoch :: nat
  ck_state_dict :: 'm
  ck_best_accuracy :: real

subsection \<open>Arguments and collaborators\<close>

record args =
  batch_size :: int
  data_batch_size :: int
  learning_rate :: real
  epochs :: int
  data :: string
  sparse_evidences :: bool

type_synonym ('c, 'e) batch = "'c \<times> 'e \<times> real list"

text \<open>
  \<^verbatim>\<open>WikiDataset(examples, claims_dict, data_batch_size=..., sparse_evidences=...)\<close>:
  the object is represented by its constructor arguments.
\<close>

type_synonym ('x, 'd) dataset = "'x list \<times> ('x, 'd) pyobj \<times> int \<times> ('x, 'd) pyobj option"

record ('m, 'c, 'e, 'x, 'd) ext =
  CDSSM :: 'm
    \<comment> \<open>\<^verbatim>\<open>cdssm.CDSSM()\<close>: the fresh network, with the optimiser's state\<close>
  forward :: "'m \<Rightarrow> bool \<Rightarrow> 'c \<Rightarrow> 'e \<Rightarrow> real list"
    \<comment> \<open>\<^verbatim>\<open>model(claims, evidences)\<close> squeezed and flattened; the flag is
        \<open>True\<close> after \<^verbatim>\<open>model.train()\<close> and \<open>False\<close> after \<^verbatim>\<open>model.eval()\<close>\<close>
  criterion :: "real list \<Rightarrow> real list \<Rightarrow> real"
    \<comment> \<open>\<^verbatim>\<open>BCEWithLogitsLoss\<close> on (y\_pred, y)\<close>
  optimizer_step :: "'m \<Rightarrow> 'c \<Rightarrow> 'e \<Rightarrow> real list \<Rightarrow> 'm"
    \<comment> \<open>\<^verbatim>\<open>zero_grad(); loss.backward(); step()\<close> on the batch just scored\<close>
  recall_score :: "real list \<Rightarrow> real list \<Rightarrow> real"
  dataset_len :: "('x, 'd) dataset \<Rightarrow> nat"
    \<comment> \<open>\<^verbatim>\<open>len(WikiDataset(...))\<close>\<close>
  dataloader :: "('x, 'd) dataset \<Rightarrow> int \<Rightarrow> nat \<Rightarrow> ('c, 'e) batch list"
    \<comment> \<open>the batches a shuffling \<^verbatim>\<open>DataLoader\<close> over the dataset, with the given
        \<^verbatim>\<open>batch_size\<close>, yields in the given epoch\<close>

subsection \<open>Arithmetic of the source\<close>

definition py_int :: "real \<Rightarrow> int" where
  \<comment> \<open>\<^verbatim>\<open>int(x)\<close> on a float: truncation towards zero\<close>
  "py_int x = (if 0 \<le> x then \<lfloor>x\<rfloor> else \<lceil>x\<rceil>)"

definition py_truediv :: "real \<Rightarrow> real \<Rightarrow> py_error + real" where
  "py_truediv a b = (if b = 0 then Inl ZeroDivisionError else Inr (a / b))"

definition py_max :: "real \<Rightarrow> real \<Rightarrow> real" where
  \<comment> \<open>\<^verbatim>\<open>max(a, b)\<close>: the first argument unless the second is greater\<close>
  "py_max a b = (if a < b then b else a)"

definition sigmoid :: "real \<Rightarrow> real" where
  "sigmoid x = 1 / (1 + exp (- x))"

definition torch_round :: "real \<Rightarrow> real" where
  \<comment> \<open>\<^verbatim>\<open>Tensor.round()\<close>: to the nearest integer, a tie to the even one\<close>
  "torch_round x =
     (let f = \<lfloor>x\<rfloor>; d = x - of_int f
      in if d < 1 / 2 then of_int f
         else if 1 / 2 < d then of_int (f + 1)
         else if even f then of_int f else of_int (f + 1))"

definition predict :: "real list \<Rightarrow> real list" where
  \<comment> \<open>\<^verbatim>\<open>torch.sigmoid(y_pred).round()\<close>\<close>
  "predict y_pred = map (\<lambda>x. torch_round (sigmoid x)) y_pred"

definition mean :: "real list \<Rightarrow> real" where
  "mean xs = sum_list xs / real (length xs)"

definition batch_accuracy :: "real list \<Rightarrow> real list \<Rightarrow> real" where
  \<comment> \<open>\<^verbatim>\<open>(y == predictions).float().mean()\<close>\<close>
  "batch_accuracy y predictions =
     mean (map (\<lambda>(a, b). if a = b then 1 else 0) (zip y predictions))"

definition OUTPUT_FREQ :: "nat \<Rightarrow> int \<Rightarrow> py_error + int" where
  \<comment> \<open>line 92: \<^verbatim>\<open>int((len(train_dataset)/BATCH_SIZE)*0.02)\<close>\<close>
  "OUTPUT_FREQ n B =
     (case py_truediv (real n) (real_of_int B) of
        Inl e \<Rightarrow> Inl e
      | Inr q \<Rightarrow> Inr (py_int (q * (2 / 100))))"

definition progress :: "nat \<Rightarrow> nat \<Rightarrow> int \<Rightarrow> py_error + real" where
  \<comment> \<open>\<^verbatim>\<open>batch_num / (len(dataset)/BATCH_SIZE)\<close>, an argument of both report lines\<close>
  "progress k n B =
     (case py_truediv (real n) (real_of_int B) of
        Inl e \<Rightarrow> Inl e
      | Inr q \<Rightarrow> py_truediv (real k) q)"

definition train_size :: "'x list \<Rightarrow> nat" where
  \<comment> \<open>line 81: \<^verbatim>\<open>int(len(train) * 0.8)\<close>\<close>
  "train_size train = nat (py_int (real (length train) * (8 / 10)))"

subsection \<open>The state of \<^verbatim>\<open>run\<close>\<close>

record ('m, 'c, 'e) state =
  net :: 'm
  inputs :: "('c, 'e) batch option"
  loss :: "real option"
  best_accuracy :: real
  mean_train_acc :: real
  train_running_loss :: real
  train_running_accuracy :: real
  val_running_loss :: real
  val_running_accuracy :: real
  stdout :: "line list"
  saved :: "(real \<times> 'm checkpoint) list"
    \<comment> \<open>the \<^verbatim>\<open>torch.save\<close> calls in order: the accuracy in the file name, and the
        dictionary written\<close>

type_synonym ('m, 'c, 'e) outcome =
  "py_error \<times> ('m, 'c, 'e) state + ('m, 'c, 'e) state"

fun final :: "('m, 'c, 'e) outcome \<Rightarrow> ('m, 'c, 'e) state" where
  "final (Inl (e, s)) = s"
| "final (Inr s) = s"

definition print_line :: "line \<Rightarrow> ('m, 'c, 'e) state \<Rightarrow> ('m, 'c, 'e) state" where
  "print_line l st = st\<lparr>stdout := stdout st @ [l]\<rparr>"

definition save_checkpoint ::
  "'m checkpoint \<Rightarrow> bool \<Rightarrow> real \<Rightarrow> ('m, 'c, 'e) state \<Rightarrow> ('m, 'c, 'e) state" where
  "save_checkpoint ck is_best filename st =
     (if is_best
      then (print_line SavingNewBest st)\<lparr>saved := saved st @ [(filename, ck)]\<rparr>
      else print_line DidNotImprove st)"

subsection \<open>The training loop (lines 118 to 167)\<close>

definition train_batch ::
  "('m, 'c, 'e, 'x, 'd) ext \<Rightarrow> int \<Rightarrow> nat \<Rightarrow> int \<Rightarrow> nat \<Rightarrow> nat \<Rightarrow> ('c, 'e) batch \<Rightarrow>
   ('m, 'c, 'e) state \<Rightarrow> ('m, 'c, 'e) outcome" where
  "train_batch env F n B epoch train_batch_num b st =
     (case b of (claims, evidences, labels) \<Rightarrow>
      let y_pred = forward env (net st) True claims evidences;
          y = labels;
          l = criterion env y_pred y;
          predictions = predict y_pred;
          accuracy = batch_accuracy y predictions;
          st1 = st\<lparr>inputs := Some b, loss := Some l,
                   train_running_accuracy := train_running_accuracy st + accuracy,
                   mean_train_acc := mean_train_acc st + accuracy,
                   train_running_loss := train_running_loss st + l\<rparr>
      in if F = 0 then Inl (ZeroDivisionError, st1)
         else
           (let upd = (\<lambda>s. s\<lparr>net := optimizer_step env (net s) claims evidences labels\<rparr>)
            in if int train_batch_num mod F = 0 \<and> 0 < train_batch_num
               then (case progress train_batch_num n B of
                       Inl e \<Rightarrow> Inl (e, st1)
                     | Inr p \<Rightarrow>
                         Inr (upd ((print_line
                               (TrainReport epoch p
                                  (train_running_loss st1 / real_of_int F)
                                  (train_running_accuracy st1 / real_of_int F)
                                  (recall_score env y predictions)) st1)
                               \<lparr>train_running_loss := 0, train_running_accuracy := 0\<rparr>)))
               else Inr (upd st1)))"

fun train_loop ::
  "('m, 'c, 'e, 'x, 'd) ext \<Rightarrow> int \<Rightarrow> nat \<Rightarrow> int \<Rightarrow> nat \<Rightarrow> nat \<Rightarrow> ('c, 'e) batch list \<Rightarrow>
   ('m, 'c, 'e) state \<Rightarrow> ('m, 'c, 'e) outcome" where
  "train_loop env F n B epoch k [] st = Inr st"
| "train_loop env F n B epoch k (b # bs) st =
     (case train_batch env F n B epoch k b st of
        Inl x \<Rightarrow> Inl x
      | Inr st' \<Rightarrow> train_loop env F n B epoch (Suc k) bs st')"

subsection \<open>The validation loop (lines 171 to 211)\<close>

text \<open>
  The loop variable is \<^verbatim>\<open>val_inputs\<close>; the body unpacks \<^verbatim>\<open>inputs\<close> and reads
  \<^verbatim>\<open>loss\<close>, the variables the training loop assigned last. A variable that was never
  assigned raises \<^verbatim>\<open>NameError\<close>.
\<close>

definition val_batch ::
  "('m, 'c, 'e, 'x, 'd) ext \<Rightarrow> int \<Rightarrow> nat \<Rightarrow> int \<Rightarrow> nat \<Rightarrow> nat \<Rightarrow> ('c, 'e) batch \<Rightarrow>
   ('m, 'c, 'e) state \<Rightarrow> ('m, 'c, 'e) outcome" where
  "val_batch env F n B epoch val_batch_num val_inputs st =
     (case inputs st of
        None \<Rightarrow> Inl (NameError ''inputs'', st)
      | Some (claims, evidences, labels) \<Rightarrow>
          let y_pred = forward env (net st) False claims evidences;
              y = labels;
              predictions = predict y_pred;
              accuracy = batch_accuracy y predictions;
              st1 = st\<lparr>val_running_accuracy := val_running_accuracy st + accuracy\<rparr>
          in (case loss st1 of
                None \<Rightarrow> Inl (NameError ''loss'', st1)
              | Some l \<Rightarrow>
                  let st2 = st1\<lparr>val_running_loss := val_running_loss st1 + l\<rparr>
                  in if F = 0 then Inl (ZeroDivisionError, st2)
                     else if int val_batch_num mod F = 0 \<and> 0 < val_batch_num
                     then (case progress val_batch_num n B of
                             Inl e \<Rightarrow> Inl (e, st2)
                           | Inr p \<Rightarrow>
                               Inr ((print_line
                                      (ValReport epoch p
                                         (val_running_loss st2 / real_of_int F)
                                         (val_running_accuracy st2 / real_of_int F)
                                         (recall_score env y predictions)) st2)
                                    \<lparr>val_running_loss := 0, val_running_accuracy := 0\<rparr>))
                     else Inr st2))"

fun val_loop ::
  "('m, 'c, 'e, 'x, 'd) ext \<Rightarrow> int \<Rightarrow> nat \<Rightarrow> int \<Rightarrow> nat \<Rightarrow> nat \<Rightarrow> ('c, 'e) batch list \<Rightarrow>
   ('m, 'c, 'e) state \<Rightarrow> ('m, 'c, 'e) outcome" where
  "val_loop env F n B epoch k [] st = Inr st"
| "val_loop env F n B epoch k (v # vs) st =
     (case val_batch env F n B epoch k v st of
        Inl x \<Rightarrow> Inl x
      | Inr st' \<Rightarrow> val_loop env F n B epoch (Suc k) vs st')"

subsection \<open>One epoch, and the run\<close>

definition epoch_end ::
  "nat \<Rightarrow> nat \<Rightarrow> ('m, 'c, 'e) state \<Rightarrow> ('m, 'c, 'e) outcome" where
  \<comment> \<open>lines 213 to 218; the first argument is \<^verbatim>\<open>len(train_dataloader)\<close>\<close>
  "epoch_end len_loader epoch st =
     (case py_truediv (mean_train_acc st) (real len_loader) of
        Inl e \<Rightarrow> Inl (e, st)
      | Inr train_acc \<Rightarrow>
          let st1 = print_line (MeanAccuracy epoch train_acc) st;
              st2 = st1\<lparr>best_accuracy := py_max train_acc (best_accuracy st1)\<rparr>;
              is_best = (best_accuracy st2 \<le> train_acc)
          in Inr (save_checkpoint
                    \<lparr>ck_epoch = epoch, ck_state_dict = net st2,
                     ck_best_accuracy = best_accuracy st2\<rparr>
                    is_best train_acc st2))"

definition epoch_body ::
  "('m, 'c, 'e, 'x, 'd) ext \<Rightarrow> int \<Rightarrow> nat \<Rightarrow> nat \<Rightarrow> int \<Rightarrow> nat \<Rightarrow>
   ('c, 'e) batch list \<Rightarrow> ('c, 'e) batch list \<Rightarrow>
   ('m, 'c, 'e) state \<Rightarrow> ('m, 'c, 'e) outcome" where
  \<comment> \<open>lines 110 to 218 for one value of \<^verbatim>\<open>epoch\<close>, given what the two loaders yield\<close>
  "epoch_body env F n_train n_val B epoch train_batches val_batches st =
     (let st0 = st\<lparr>mean_train_acc := 0, train_running_loss := 0,
                   train_running_accuracy := 0, val_running_loss := 0,
                   val_running_accuracy := 0\<rparr>
      in case train_loop env F n_train B epoch 0 train_batches st0 of
           Inl x \<Rightarrow> Inl x
         | Inr st1 \<Rightarrow>
             (case val_loop env F n_val B epoch 0 val_batches
                     (print_line RunningValidation st1) of
                Inl x \<Rightarrow> Inl x
              | Inr st2 \<Rightarrow> epoch_end (length train_batches) epoch st2))"

fun epochs_from ::
  "('m, 'c, 'e, 'x, 'd) ext \<Rightarrow> int \<Rightarrow> ('x, 'd) dataset \<Rightarrow> ('x, 'd) dataset \<Rightarrow> int \<Rightarrow>
   nat \<Rightarrow> nat \<Rightarrow> ('m, 'c, 'e) state \<Rightarrow> ('m, 'c, 'e) outcome" where
  \<comment> \<open>\<^verbatim>\<open>for epoch in range(NUM_EPOCHS)\<close>, from \<open>epoch\<close> on, \<open>k\<close> epochs to go\<close>
  "epochs_from env F train_dataset val_dataset B epoch 0 st = Inr st"
| "epochs_from env F train_dataset val_dataset B epoch (Suc k) st =
     (case epoch_body env F (dataset_len env train_dataset) (dataset_len env val_dataset) B
             epoch (dataloader env train_dataset B epoch) (dataloader env val_dataset B epoch)
             st of
        Inl x \<Rightarrow> Inl x
      | Inr st' \<Rightarrow> epochs_from env F train_dataset val_dataset B (Suc epoch) k st')"

definition init_state :: "('m, 'c, 'e, 'x, 'd) ext \<Rightarrow> ('m, 'c, 'e) state" where
  \<comment> \<open>the variables of \<^verbatim>\<open>run\<close> before the first epoch, nothing printed yet\<close>
  "init_state env =
     \<lparr>net = CDSSM env, inputs = None, loss = None, best_accuracy = 0,
      mean_train_acc = 0, train_running_loss = 0, train_running_accuracy = 0,
      val_running_loss = 0, val_running_accuracy = 0, stdout = [], saved = []\<rparr>"

definition split_train :: "'x list \<Rightarrow> 'x list \<times> 'x list" where
  \<comment> \<open>lines 83 and 84: \<^verbatim>\<open>train[:train_size]\<close> and \<^verbatim>\<open>train[train_size:]\<close>\<close>
  "split_train train = (take (train_size train) train, drop (train_size train) train)"

definition run ::
  "('m, 'c, 'e, 'x, 'd) ext \<Rightarrow> args \<Rightarrow> ('x, 'd) pyobj \<Rightarrow> ('x, 'd) pyobj option \<Rightarrow>
   ('x, 'd) pyobj \<Rightarrow> ('m, 'c, 'e) outcome" where
  "run env a train sparse claims_dict =
     (let BATCH_SIZE = batch_size a;
          DATA_BATCH_SIZE = data_batch_size a;
          NUM_EPOCHS = epochs a;
          st0 = print_line CreatedDataset (print_line CreatedModel (init_state env))
      in case train of
           PyObj _ \<Rightarrow> Inl (TypeError, st0)
         | PyList xs \<Rightarrow>
             let train_dataset = (fst (split_train xs), claims_dict, DATA_BATCH_SIZE, sparse);
                 val_dataset = (snd (split_train xs), claims_dict, DATA_BATCH_SIZE, sparse)
             in (case OUTPUT_FREQ (dataset_len env train_dataset) BATCH_SIZE of
                   Inl e \<Rightarrow> Inl (e, st0)
                 | Inr F \<Rightarrow>
                     epochs_from env F train_dataset val_dataset BATCH_SIZE 0
                       (nat NUM_EPOCHS) (print_line Training st0)))"

subsection \<open>Start-up (lines 220 to 242)\<close>

definition os_path_join :: "string \<Rightarrow> string \<Rightarrow> string" where
  \<comment> \<open>\<^verbatim>\<open>os.path.join(a, b)\<close> on POSIX\<close>
  "os_path_join a b =
     (if b \<noteq> [] \<and> hd b = CHR ''/'' then b
      else if a = [] \<or> last a = CHR ''/'' then a @ b
      else a @ ''/'' @ b)"

definition joblib_load ::
  "(string \<rightharpoonup> ('x, 'd) pyobj) \<Rightarrow> string \<Rightarrow> py_error + ('x, 'd) pyobj" where
  \<comment> \<open>the file system maps the name of each existing file to what it unpickles to\<close>
  "joblib_load fs fname =
     (case fs fname of None \<Rightarrow> Inl (FileNotFoundError fname) | Some obj \<Rightarrow> Inr obj)"

text \<open>
  The start-up code either raises before \<^verbatim>\<open>run\<close> is called (\<open>Inl\<close>: the error and
  the lines printed so far), or calls \<^verbatim>\<open>run\<close> (\<open>Inr\<close>: the lines printed before the
  call, and the outcome of \<^verbatim>\<open>run\<close>).
\<close>

definition main ::
  "('m, 'c, 'e, 'x, 'd) ext \<Rightarrow> (string \<rightharpoonup> ('x, 'd) pyobj) \<Rightarrow> args \<Rightarrow>
   py_error \<times> line list + line list \<times> ('m, 'c, 'e) outcome" where
  "main env fs a =
     (let out1 = [Loading (data a)]
      in case joblib_load fs (os_path_join (data a) ''train.pkl'') of
           Inl e \<Rightarrow> Inl (e, out1)
         | Inr train \<Rightarrow>
             (case (if sparse_evidences a
                    then (case joblib_load fs (os_path_join (data a) ''evidence.pkl'') of
                            Inl e \<Rightarrow> Inl (e, out1 @ [LoadingSparseEvidences])
                          | Inr ev \<Rightarrow> Inr (Some ev, out1 @ [LoadingSparseEvidences]))
                    else Inr (None, out1)) of
                Inl x \<Rightarrow> Inl x
              | Inr (sparse, out2) \<Rightarrow>
                  \<comment> \<open>\<^verbatim>\<open>claims_dict\<close> is not defined at this point: the bare
                      \<^verbatim>\<open>except\<close> always runs\<close>
                  (let out3 = out2 @ [LoadingClaimsData]
                   in case joblib_load fs ''new_claims_dict.pkl'' of
                        Inl e \<Rightarrow> Inl (e, out3)
                      | Inr claims_dict \<Rightarrow>
                          Inr (out3, run env a train sparse claims_dict))))"

subsection \<open>Observations on a run\<close>

text \<open>
  What a run leaves behind is read off its output: the mean training accuracy that each
  completed epoch printed (line 214), and the checkpoints written by \<^verbatim>\<open>torch.save\<close>.
\<close>

fun mean_accuracies :: "line list \<Rightarrow> (nat \<times> real) list" where
  "mean_accuracies [] = []"
| "mean_accuracies (MeanAccuracy e a # ls) = (e, a) # mean_accuracies ls"
| "mean_accuracies (l # ls) = mean_accuracies ls"

definition written_in :: "('m, 'c, 'e) state \<Rightarrow> nat \<Rightarrow> bool" where
  \<comment> \<open>a checkpoint file was written at the end of the given epoch\<close>
  "written_in s e \<longleftrightarrow> e \<in> set (map (ck_epoch \<circ> snd) (saved s))"

definition prior_best :: "(nat \<times> real) list \<Rightarrow> nat \<Rightarrow> real" where
  \<comment> \<open>the largest mean training accuracy of the epochs before epoch \<open>i\<close>, and 0.0\<close>
  "prior_best accs i = Max (insert 0 (set (map snd (take i accs))))"

definition persisted :: "('m, 'c, 'e) state \<Rightarrow> real list" where
  \<comment> \<open>the \<^verbatim>\<open>best_accuracy\<close> entries of the written checkpoints, in the order of writing\<close>
  "persisted s = map (ck_best_accuracy \<circ> snd) (saved s)"

definition frame :: "('m, 'c, 'e) state \<Rightarrow> ('m, 'c, 'e) state \<Rightarrow> bool" where
  \<comment> \<open>nothing that concerns the checkpoint policy differs between the two states\<close>
  "frame st s \<longleftrightarrow>
     best_accuracy s = best_accuracy st \<and> saved s = saved st \<and>
     mean_accuracies (stdout s) = mean_accuracies (stdout st)"

definition policy_inv :: "nat \<Rightarrow> ('m, 'c, 'e) state \<Rightarrow> bool" where
  \<comment> \<open>the invariant of the epoch loop, at the start of epoch \<open>e\<close>\<close>
  "policy_inv e s \<longleftrightarrow>
     map fst (mean_accuracies (stdout s)) = [0..<e] \<and>
     best_accuracy s = prior_best (mean_accuracies (stdout s)) e \<and>
     (\<forall>j. written_in s j \<longrightarrow> j < e) \<and>
     (\<forall>i<e. written_in s i \<longleftrightarrow>
        prior_best (mean_accuracies (stdout s)) i \<le> snd (mean_accuracies (stdout s) ! i))"

fun val_report_losses :: "line list \<Rightarrow> real list" where
  \<comment> \<open>the loss values of the validation reports, in the order of printing\<close>
  "val_report_losses [] = []"
| "val_report_losses (ValReport e p l a r # ls) = l # val_report_losses ls"
| "val_report_losses (x # ls) = val_report_losses ls"

definition since_reset :: "nat \<Rightarrow> nat \<Rightarrow> nat" where
  \<comment> \<open>how many batches the running sums hold after \<open>k\<close> batches of a loop with
      \<^verbatim>\<open>OUTPUT_FREQ\<close> \<open>f\<close>: the sums are reset after the batches with a positive index
      that is a multiple of \<open>f\<close>\<close>
  "since_reset f k = (if k \<le> f then k else (k - 1) mod f)"

subsection \<open>A small concrete setting\<close>

text \<open>
  A network that counts its optimiser steps and scores every pair as relevant during
  its first four steps and as irrelevant afterwards; every label is 1 and every loss is 1.
  The dataset has \<^verbatim>\<open>data_batch_size\<close> entries per example; the loader yields one batch per
  example.
\<close>

definition example_ext :: "(nat, nat, nat, nat, nat) ext" where
  "example_ext =
     \<lparr>CDSSM = 0,
      forward = (\<lambda>m t c e. [if m < 4 then 1 else - 1]),
      criterion = (\<lambda>p y. 1),
      optimizer_step = (\<lambda>m c e y. Suc m),
      recall_score = (\<lambda>y p. 1),
      dataset_len = (\<lambda>(xs, cd, dbs, sp). length xs * nat dbs),
      dataloader = (\<lambda>(xs, cd, dbs, sp) B ep. map (\<lambda>x. (x, x, [1])) xs)\<rparr>"

definition example_args :: args where
  "example_args =
     \<lparr>batch_size = 1, data_batch_size = 50, learning_rate = 1 / 1000, epochs = 2,
      data = ''data'', sparse_evidences = False\<rparr>"

definition example_run :: "(nat, nat, nat) state" where
  "example_run = final (run example_ext example_args (PyList [0, 1, 2, 3, 4]) None (PyObj 0))"

definition example_epoch :: "(nat, nat, nat) outcome" where
  \<comment> \<open>one epoch over a single training batch, with \<^verbatim>\<open>OUTPUT_FREQ\<close> 4\<close>
  "example_epoch =
     epoch_body example_ext 4 200 50 1 0 [(0, 0, [1])] [] (init_state example_ext)"

definition example_raised :: "(nat, nat, nat) outcome" where
  \<comment> \<open>the same epoch with \<^verbatim>\<open>OUTPUT_FREQ\<close> 0\<close>
  "example_raised =
     epoch_body example_ext 0 10 3 1 0 [(0, 0, [1])] [] (init_state example_ext)"

definition example_files :: "string \<rightharpoonup> (nat, nat) pyobj" where
  \<comment> \<open>a data folder with \<^verbatim>\<open>train.pkl\<close> and no \<^verbatim>\<open>evidence.pkl\<close>\<close>
  "example_files =
     [''data/train.pkl'' \<mapsto> PyList [0, 1, 2, 3, 4], ''new_claims_dict.pkl'' \<mapsto> PyObj 0]"

definition example_trained :: "(nat, nat, nat) state" where
  \<comment> \<open>the state after a training loop over one batch, with \<^verbatim>\<open>OUTPUT_FREQ\<close> 1\<close>
  "example_trained =
     final (train_loop example_ext 1 50 1 0 0 [(0, 0, [1])] (init_state example_ext))"

definition example_val_batches :: "(nat, nat) batch list" where
  "example_val_batches = [(7, 7, [0]), (8, 8, [0]), (9, 9, [0])]"

definition example_validation :: "(nat, nat, nat) outcome" where
  \<comment> \<open>the validation loop that follows, over three validation batches\<close>
  "example_validation =
     val_loop example_ext 1 13 1 0 0 example_val_batches example_trained"

definition example_window :: "(nat, nat, nat) outcome" where
  \<comment> \<open>the first two training batches of an epoch with \<^verbatim>\<open>OUTPUT_FREQ\<close> 1\<close>
  "example_window =
     train_loop example_ext 1 50 1 0 0 [(0, 0, [1]), (1, 1, [1])] (init_state example_ext)"

section \<open>Properties\<close>

subsection \<open>Arithmetic\<close>

lemma py_int_nonneg: "0 \<le> x \<Longrightarrow> py_int x = \<lfloor>x\<rfloor>"
  by (simp add: py_int_def)

lemma py_max_eq: "py_max a b = max a b"
  by (simp add: py_max_def max_def)

lemma OUTPUT_FREQ_pos:
  assumes "0 < B"
  shows "OUTPUT_FREQ n B = Inr (int n div (50 * B))"
proof -
  have e: "real n / real_of_int B * (2 / 100) = real_of_int (int n) / real_of_int (50 * B)"
    by simp
  have "0 \<le> real n / real_of_int B * (2 / 100)"
    using assms by simp
  then have "py_int (real n / real_of_int B * (2 / 100)) =
      \<lfloor>real_of_int (int n) / real_of_int (50 * B)\<rfloor>"
    unfolding e[symmetric] by (rule py_int_nonneg)
  also have "\<dots> = int n div (50 * B)"
    by (rule floor_divide_of_int_eq)
  finally show ?thesis
    using assms by (simp add: OUTPUT_FREQ_def py_truediv_def)
qed

lemma train_size_eq: "train_size xs = (4 * length xs) div 5"
proof -
  have e: "real (length xs) * (8 / 10) = real_of_int (int (4 * length xs)) / real_of_int 5"
    by simp
  have "py_int (real (length xs) * (8 / 10)) =
      \<lfloor>real_of_int (int (4 * length xs)) / real_of_int 5\<rfloor>"
    unfolding e[symmetric] by (rule py_int_nonneg) simp
  also have "\<dots> = int (4 * length xs) div 5"
    by (rule floor_divide_of_int_eq)
  finally show ?thesis
    by (simp add: train_size_def nat_div_distrib)
qed

lemma sigmoid_bounds: "0 < sigmoid x" "sigmoid x < 1"
  by (simp_all add: sigmoid_def add_pos_pos)

lemma sigmoid_half: "sigmoid x < 1 / 2 \<longleftrightarrow> x < 0" "1 / 2 < sigmoid x \<longleftrightarrow> 0 < x"
  by (simp_all add: sigmoid_def field_simps add_pos_pos)

lemma floor_sigmoid: "\<lfloor>sigmoid x\<rfloor> = 0"
  using sigmoid_bounds[of x] by (simp add: floor_eq_iff)

lemma round_sigmoid: "torch_round (sigmoid x) = (if 0 < x then 1 else 0)"
  using sigmoid_half[of x] by (auto simp: torch_round_def floor_sigmoid Let_def)

text \<open>The rounded sigmoid is the sign test; this is also how \<open>predict\<close> is evaluated.\<close>

lemma predict_code [code]: "predict y_pred = map (\<lambda>x. if 0 < x then 1 else 0) y_pred"
  by (simp add: predict_def round_sigmoid)

subsection \<open>What the two loops leave untouched\<close>

lemma mean_accuracies_append:
  "mean_accuracies (xs @ ys) = mean_accuracies xs @ mean_accuracies ys"
  by (induction xs rule: mean_accuracies.induct) simp_all

lemma frame_refl: "frame st st"
  by (simp add: frame_def)

lemma frame_trans: "frame a b \<Longrightarrow> frame b c \<Longrightarrow> frame a c"
  by (simp add: frame_def)

lemma train_batch_frame: "frame st (final (train_batch env F n B ep k b st))"
  by (simp add: train_batch_def frame_def Let_def print_line_def mean_accuracies_append
      split: prod.splits sum.splits)

lemma train_loop_frame: "frame st (final (train_loop env F n B ep k bs st))"
proof (induction bs arbitrary: k st)
  case Nil
  show ?case by (simp add: frame_refl)
next
  case (Cons b bs)
  show ?case
  proof (cases "train_batch env F n B ep k b st")
    case (Inl x)
    with train_batch_frame[of st env F n B ep k b] show ?thesis
      by (cases x) simp
  next
    case (Inr s1)
    with train_batch_frame[of st env F n B ep k b] have "frame st s1" by simp
    moreover have "frame s1 (final (train_loop env F n B ep (Suc k) bs s1))"
      by (rule Cons.IH)
    ultimately show ?thesis using Inr
      by (auto intro: frame_trans)
  qed
qed

lemma val_batch_frame: "frame st (final (val_batch env F n B ep k v st))"
  by (simp add: val_batch_def frame_def Let_def print_line_def mean_accuracies_append
      split: prod.splits sum.splits option.splits)

lemma val_loop_frame: "frame st (final (val_loop env F n B ep k vs st))"
proof (induction vs arbitrary: k st)
  case Nil
  show ?case by (simp add: frame_refl)
next
  case (Cons v vs)
  show ?case
  proof (cases "val_batch env F n B ep k v st")
    case (Inl x)
    with val_batch_frame[of st env F n B ep k v] show ?thesis
      by (cases x) simp
  next
    case (Inr s1)
    with val_batch_frame[of st env F n B ep k v] have "frame st s1" by simp
    moreover have "frame s1 (final (val_loop env F n B ep (Suc k) vs s1))"
      by (rule Cons.IH)
    ultimately show ?thesis using Inr
      by (auto intro: frame_trans)
  qed
qed

subsection \<open>The end of an epoch\<close>

lemma epoch_end_Inl: "epoch_end len e st = Inl (x, s') \<Longrightarrow> s' = st"
  by (auto simp: epoch_end_def py_truediv_def Let_def split: if_splits)

lemma epoch_end_Inr:
  assumes "epoch_end len e st = Inr s'"
  shows "len \<noteq> 0 \<and>
    mean_accuracies (stdout s') =
      mean_accuracies (stdout st) @ [(e, mean_train_acc st / real len)] \<and>
    best_accuracy s' = py_max (mean_train_acc st / real len) (best_accuracy st) \<and>
    saved s' = saved st @
      (if best_accuracy st \<le> mean_train_acc st / real len
       then [(mean_train_acc st / real len,
              \<lparr>ck_epoch = e, ck_state_dict = net st,
               ck_best_accuracy = mean_train_acc st / real len\<rparr>)]
       else [])"
  using assms
  by (auto simp: epoch_end_def py_truediv_def Let_def print_line_def save_checkpoint_def
      mean_accuracies_append py_max_def split: if_splits)

lemma epoch_body_Inl:
  assumes "epoch_body env F n1 n2 B e tb vb st = Inl (x, s')"
  shows "frame st s'"
proof -
  let ?st0 = "st\<lparr>mean_train_acc := 0, train_running_loss := 0,
                   train_running_accuracy := 0, val_running_loss := 0,
                   val_running_accuracy := 0\<rparr>"
  have f0: "frame st ?st0" by (simp add: frame_def)
  show ?thesis
  proof (cases "train_loop env F n1 B e 0 tb ?st0")
    case (Inl y)
    with assms have "y = (x, s')" by (simp add: epoch_body_def)
    with Inl train_loop_frame[of ?st0 env F n1 B e 0 tb] have "frame ?st0 s'" by simp
    with f0 show ?thesis by (rule frame_trans)
  next
    case (Inr s1)
    with train_loop_frame[of ?st0 env F n1 B e 0 tb] have "frame ?st0 s1" by simp
    with f0 have f1: "frame st s1" by (rule frame_trans)
    let ?s1 = "print_line RunningValidation s1"
    have "frame s1 ?s1" by (simp add: frame_def print_line_def mean_accuracies_append)
    with f1 have f1': "frame st ?s1" by (rule frame_trans)
    show ?thesis
    proof (cases "val_loop env F n2 B e 0 vb ?s1")
      case (Inl y)
      with assms Inr have "y = (x, s')" by (simp add: epoch_body_def)
      with Inl val_loop_frame[of ?s1 env F n2 B e 0 vb] have "frame ?s1 s'" by simp
      with f1' show ?thesis by (rule frame_trans)
    next
      case Inr2: (Inr s2)
      with val_loop_frame[of ?s1 env F n2 B e 0 vb] have "frame ?s1 s2" by simp
      with f1' have f2: "frame st s2" by (rule frame_trans)
      from assms Inr Inr2 have "epoch_end (length tb) e s2 = Inl (x, s')"
        by (simp add: epoch_body_def)
      then have "s' = s2" by (rule epoch_end_Inl)
      with f2 show ?thesis by simp
    qed
  qed
qed

lemma epoch_body_Inr:
  assumes "epoch_body env F n1 n2 B e tb vb st = Inr s'"
  shows "\<exists>acc m. mean_accuracies (stdout s') = mean_accuracies (stdout st) @ [(e, acc)] \<and>
    best_accuracy s' = py_max acc (best_accuracy st) \<and>
    saved s' = saved st @
      (if best_accuracy st \<le> acc
       then [(acc, \<lparr>ck_epoch = e, ck_state_dict = m, ck_best_accuracy = acc\<rparr>)]
       else [])"
proof -
  let ?st0 = "st\<lparr>mean_train_acc := 0, train_running_loss := 0,
                   train_running_accuracy := 0, val_running_loss := 0,
                   val_running_accuracy := 0\<rparr>"
  have f0: "frame st ?st0" by (simp add: frame_def)
  from assms obtain s1 where s1: "train_loop env F n1 B e 0 tb ?st0 = Inr s1"
    by (auto simp: epoch_body_def split: sum.splits)
  let ?s1 = "print_line RunningValidation s1"
  from assms s1 obtain s2 where s2: "val_loop env F n2 B e 0 vb ?s1 = Inr s2"
    by (auto simp: epoch_body_def split: sum.splits)
  from assms s1 s2 have e: "epoch_end (length tb) e s2 = Inr s'"
    by (simp add: epoch_body_def)
  from s1 train_loop_frame[of ?st0 env F n1 B e 0 tb] have "frame ?st0 s1" by simp
  with f0 have f1: "frame st s1" by (rule frame_trans)
  have "frame s1 ?s1" by (simp add: frame_def print_line_def mean_accuracies_append)
  with f1 have f1': "frame st ?s1" by (rule frame_trans)
  from s2 val_loop_frame[of ?s1 env F n2 B e 0 vb] have "frame ?s1 s2" by simp
  with f1' have f2: "frame st s2" by (rule frame_trans)
  from epoch_end_Inr[OF e] f2 show ?thesis
    unfolding frame_def
    by (intro exI[of _ "mean_train_acc s2 / real (length tb)"] exI[of _ "net s2"]) simp
qed

text \<open>An invariant of the epoch loop holds in the state the loop ends in, raised or not.\<close>

lemma epochs_from_invariant:
  assumes start: "I epoch st"
    and raised: "\<And>e s tb vb x s'. I e s \<Longrightarrow>
          epoch_body env F n1 n2 B e tb vb s = Inl (x, s') \<Longrightarrow> I e s'"
    and returned: "\<And>e s tb vb s'. I e s \<Longrightarrow>
          epoch_body env F n1 n2 B e tb vb s = Inr s' \<Longrightarrow> I (Suc e) s'"
    and n1: "n1 = dataset_len env tds" and n2: "n2 = dataset_len env vds"
  shows "\<exists>e. I e (final (epochs_from env F tds vds B epoch k st))"
  using start
proof (induction k arbitrary: epoch st)
  case 0
  then show ?case by auto
next
  case (Suc k)
  show ?case
  proof (cases "epoch_body env F n1 n2 B epoch (dataloader env tds B epoch)
                  (dataloader env vds B epoch) st")
    case (Inl y)
    obtain x s' where y: "y = (x, s')" by (cases y)
    with Inl Suc.prems have "I epoch s'" by (auto intro: raised)
    with Inl y show ?thesis by (auto simp: n1 n2)
  next
    case (Inr s')
    with Suc.prems have "I (Suc epoch) s'" by (auto intro: returned)
    then have "\<exists>e. I e (final (epochs_from env F tds vds B (Suc epoch) k s'))"
      by (rule Suc.IH)
    with Inr show ?thesis by (simp add: n1 n2)
  qed
qed

text \<open>The final state of \<^verbatim>\<open>run\<close> satisfies what its epoch loop maintains.\<close>

lemma run_invariant:
  assumes init: "I 0 (print_line CreatedDataset (print_line CreatedModel (init_state env)))"
    and training: "\<And>s. I 0 s \<Longrightarrow> I 0 (print_line Training s)"
    and raised: "\<And>F n1 n2 e s tb vb x s'. I e s \<Longrightarrow>
          epoch_body env F n1 n2 (batch_size a) e tb vb s = Inl (x, s') \<Longrightarrow> I e s'"
    and returned: "\<And>F n1 n2 e s tb vb s'. I e s \<Longrightarrow>
          epoch_body env F n1 n2 (batch_size a) e tb vb s = Inr s' \<Longrightarrow> I (Suc e) s'"
  shows "\<exists>e. I e (final (run env a train sp cd))"
proof (cases train)
  case (PyObj d)
  with init show ?thesis by (auto simp: run_def Let_def)
next
  case (PyList xs)
  let ?tds = "(fst (split_train xs), cd, data_batch_size a, sp)"
  let ?vds = "(snd (split_train xs), cd, data_batch_size a, sp)"
  show ?thesis
  proof (cases "OUTPUT_FREQ (dataset_len env ?tds) (batch_size a)")
    case (Inl x)
    with PyList init show ?thesis by (auto simp: run_def Let_def)
  next
    case (Inr F)
    have "\<exists>e. I e (final (epochs_from env F ?tds ?vds (batch_size a) 0 (nat (epochs a))
        (print_line Training (print_line CreatedDataset (print_line CreatedModel
          (init_state env))))))"
      by (rule epochs_from_invariant[where I = I, OF training[OF init] raised returned])
        simp_all
    with PyList Inr show ?thesis by (simp add: run_def Let_def)
  qed
qed

subsection \<open>The checkpoint policy\<close>

lemma prior_best_snoc:
  "prior_best (accs @ [(e, a)]) (Suc (length accs)) = max a (prior_best accs (length accs))"
proof -
  have "Max (insert a (insert 0 (set (map snd accs)))) =
      max a (Max (insert 0 (set (map snd accs))))"
    by (rule Max_insert) simp_all
  then show ?thesis by (simp add: prior_best_def insert_commute[of 0])
qed

lemma prior_best_append: "i \<le> length accs \<Longrightarrow> prior_best (accs @ ys) i = prior_best accs i"
  by (simp add: prior_best_def)

lemma policy_inv_frame: "policy_inv e s \<Longrightarrow> frame s s' \<Longrightarrow> policy_inv e s'"
  by (simp add: policy_inv_def frame_def written_in_def)

lemma policy_inv_step:
  assumes inv: "policy_inv e s"
    and body: "epoch_body env F n1 n2 B e tb vb s = Inr s'"
  shows "policy_inv (Suc e) s'"
proof -
  let ?accs = "mean_accuracies (stdout s)"
  from epoch_body_Inr[OF body] obtain acc m where
    accs': "mean_accuracies (stdout s') = ?accs @ [(e, acc)]" and
    best': "best_accuracy s' = py_max acc (best_accuracy s)" and
    saved': "saved s' = saved s @
      (if best_accuracy s \<le> acc
       then [(acc, \<lparr>ck_epoch = e, ck_state_dict = m, ck_best_accuracy = acc\<rparr>)]
       else [])"
    by blast
  from inv have fsts: "map fst ?accs = [0..<e]"
    and best: "best_accuracy s = prior_best ?accs e"
    and lt: "\<And>j. written_in s j \<Longrightarrow> j < e"
    and old: "\<And>i. i < e \<Longrightarrow> written_in s i \<longleftrightarrow> prior_best ?accs i \<le> snd (?accs ! i)"
    by (simp_all add: policy_inv_def)
  from fsts have len: "length ?accs = e"
    by (metis length_map length_upt minus_nat.diff_0)
  have w': "\<And>j. written_in s' j \<longleftrightarrow> written_in s j \<or> (j = e \<and> best_accuracy s \<le> acc)"
    by (auto simp: written_in_def saved')
  have 1: "map fst (mean_accuracies (stdout s')) = [0..<Suc e]"
    by (simp add: accs' fsts)
  have 2: "best_accuracy s' = prior_best (mean_accuracies (stdout s')) (Suc e)"
    using prior_best_snoc[of ?accs e acc] by (simp add: accs' len best' best py_max_eq)
  have 3: "\<forall>j. written_in s' j \<longrightarrow> j < Suc e"
  proof (intro allI impI)
    fix j assume "written_in s' j"
    then consider "written_in s j" | "j = e" by (auto simp: w')
    then show "j < Suc e"
    proof cases
      case 1
      then have "j < e" by (rule lt)
      then show ?thesis by simp
    next
      case 2
      then show ?thesis by simp
    qed
  qed
  have 4: "written_in s' i \<longleftrightarrow>
        prior_best (mean_accuracies (stdout s')) i \<le> snd (mean_accuracies (stdout s') ! i)"
    if i: "i < Suc e" for i
  proof (cases "i = e")
    case True
    have "\<not> written_in s e" using lt[of e] by auto
    then have "written_in s' e \<longleftrightarrow> best_accuracy s \<le> acc" by (simp add: w')
    moreover have "prior_best (mean_accuracies (stdout s')) e = prior_best ?accs e"
      by (simp add: accs' prior_best_append len)
    moreover have "mean_accuracies (stdout s') ! e = (e, acc)"
      by (simp add: accs' nth_append len)
    ultimately show ?thesis by (simp add: True best)
  next
    case False
    with i have ie: "i < e" by simp
    then have "written_in s' i \<longleftrightarrow> written_in s i" by (simp add: w')
    moreover have "prior_best (mean_accuracies (stdout s')) i = prior_best ?accs i"
      using ie by (simp add: accs' prior_best_append len)
    moreover have "mean_accuracies (stdout s') ! i = ?accs ! i"
      using ie by (simp add: accs' nth_append len)
    ultimately show ?thesis using old[OF ie] by simp
  qed
  from 1 2 3 4 show ?thesis by (simp add: policy_inv_def)
qed

lemma policy_inv_run: "\<exists>e. policy_inv e (final (run env a train sp cd))"
proof (rule run_invariant[where I = policy_inv])
  show "policy_inv 0 (print_line CreatedDataset (print_line CreatedModel (init_state env)))"
    by (simp add: policy_inv_def print_line_def init_state_def prior_best_def written_in_def)
  show "policy_inv 0 (print_line Training s)" if "policy_inv 0 s" for s
    using that by (rule policy_inv_frame)
      (simp add: frame_def print_line_def mean_accuracies_append)
  show "policy_inv e s'"
    if "policy_inv e s" "epoch_body env F n1 n2 (batch_size a) e tb vb s = Inl (x, s')"
    for F n1 n2 e s tb vb x s'
    using that by (auto intro: policy_inv_frame epoch_body_Inl)
  show "policy_inv (Suc e) s'"
    if "policy_inv e s" "epoch_body env F n1 n2 (batch_size a) e tb vb s = Inr s'"
    for F n1 n2 e s tb vb s'
    using that by (rule policy_inv_step)
qed

lemma example_run_accuracies: "mean_accuracies (stdout example_run) = [(0, 1), (1, 0)]"
  by code_simp

lemma example_run_written: "written_in example_run 0 \<and> \<not> written_in example_run 1"
  by code_simp

text \<open>
  Claim C1. In every run, the completed epochs are those that printed their mean training
  accuracy, one line per epoch in the order 0, 1, 2, ...; and a checkpoint file was written
  at the end of epoch \<open>i\<close> if and only if the mean training accuracy of epoch \<open>i\<close> (the
  printed value, \<^verbatim>\<open>mean_train_acc\<close> divided by the number of training batches) is greater
  than or equal to the maximum of 0.0 and the mean training accuracies of all epochs
  before \<open>i\<close>. The statement is about the state a run ends in, whether it returned or
  raised.
\<close>

theorem checkpoint_iff_not_below_prior_best:
  "let s = final (run env a train sp cd); accs = mean_accuracies (stdout s)
   in map fst accs = [0..<length accs] \<and>
      (\<forall>i<length accs. written_in s i \<longleftrightarrow> prior_best accs i \<le> snd (accs ! i)) \<and>
      (\<forall>len e st s'. epoch_end len e st = Inr s' \<longrightarrow>
         mean_accuracies (stdout s') =
           mean_accuracies (stdout st) @ [(e, mean_train_acc st / real len)])"
proof -
  obtain e where e: "policy_inv e (final (run env a train sp cd))"
    using policy_inv_run by blast
  then have "length (mean_accuracies (stdout (final (run env a train sp cd)))) = e"
    unfolding policy_inv_def by (metis length_map length_upt minus_nat.diff_0)
  with e show ?thesis by (simp add: policy_inv_def Let_def epoch_end_Inr)
qed

theorem checkpoint_iff_not_below_prior_best_witness:
  "length (mean_accuracies (stdout example_run)) = 2 \<and>
   written_in example_run 0 \<and>
   prior_best (mean_accuracies (stdout example_run)) 0
     \<le> snd (mean_accuracies (stdout example_run) ! 0) \<and>
   \<not> written_in example_run 1 \<and>
   \<not> prior_best (mean_accuracies (stdout example_run)) 1
     \<le> snd (mean_accuracies (stdout example_run) ! 1)"
proof -
  have len: "length (mean_accuracies (stdout example_run)) = 2"
    by (simp add: example_run_accuracies)
  have "\<forall>i<length (mean_accuracies (stdout example_run)).
      written_in example_run i \<longleftrightarrow>
      prior_best (mean_accuracies (stdout example_run)) i
        \<le> snd (mean_accuracies (stdout example_run) ! i)"
    using checkpoint_iff_not_below_prior_best
      [of example_ext example_args "PyList [0, 1, 2, 3, 4]" None "PyObj 0"]
    unfolding Let_def example_run_def by blast
  then have "\<forall>i<2. written_in example_run i \<longleftrightarrow>
      prior_best (mean_accuracies (stdout example_run)) i
        \<le> snd (mean_accuracies (stdout example_run) ! i)"
    by (simp only: len)
  then have
    "written_in example_run 0 \<longleftrightarrow>
      prior_best (mean_accuracies (stdout example_run)) 0
        \<le> snd (mean_accuracies (stdout example_run) ! 0)"
    "written_in example_run 1 \<longleftrightarrow>
      prior_best (mean_accuracies (stdout example_run)) 1
        \<le> snd (mean_accuracies (stdout example_run) ! 1)"
    by simp_all
  with example_run_written len show ?thesis by blast
qed

subsection \<open>The split\<close>

text \<open>
  Claim C7. For a dataset of N examples, the training split \<^verbatim>\<open>train[:train_size]\<close> has
  exactly floor(N * 0.8) examples, the validation split \<^verbatim>\<open>train[train_size:]\<close> has the
  remaining N - floor(N * 0.8) examples, and the two sizes sum to N (the two splits are
  the dataset cut in two).
\<close>

theorem split_train_sizes:
  "length (fst (split_train xs)) = nat \<lfloor>real (length xs) * (8 / 10)\<rfloor> \<and>
   length (snd (split_train xs)) = length xs - nat \<lfloor>real (length xs) * (8 / 10)\<rfloor> \<and>
   length (fst (split_train xs)) + length (snd (split_train xs)) = length xs \<and>
   fst (split_train xs) @ snd (split_train xs) = xs"
proof -
  have t: "train_size xs = nat \<lfloor>real (length xs) * (8 / 10)\<rfloor>"
    by (simp add: train_size_def py_int_def)
  have "train_size xs \<le> length xs"
    by (simp add: train_size_eq)
  with t show ?thesis
    by (simp add: split_train_def)
qed

lemma persisted_inv_run:
  "\<exists>e::nat. sorted (persisted (final (run env a train sp cd))) \<and>
     (\<forall>x\<in>set (persisted (final (run env a train sp cd))). x \<le> best_accuracy (final (run env a train sp cd)))"
proof (rule run_invariant[where I = "\<lambda>(e::nat) s. sorted (persisted s) \<and> (\<forall>x\<in>set (persisted s). x \<le> best_accuracy s)"])
  show "sorted (persisted (print_line CreatedDataset (print_line CreatedModel (init_state env)))) \<and>
    (\<forall>x\<in>set (persisted (print_line CreatedDataset (print_line CreatedModel (init_state env)))).
       x \<le> best_accuracy (print_line CreatedDataset (print_line CreatedModel (init_state env))))"
    by (simp add: persisted_def print_line_def init_state_def)
  show "sorted (persisted (print_line Training s)) \<and>
    (\<forall>x\<in>set (persisted (print_line Training s)). x \<le> best_accuracy (print_line Training s))"
    if "sorted (persisted s) \<and> (\<forall>x\<in>set (persisted s). x \<le> best_accuracy s)" for s :: "('a, 'b, 'c) state"
    using that by (simp add: persisted_def print_line_def)
  show "sorted (persisted s') \<and> (\<forall>x\<in>set (persisted s'). x \<le> best_accuracy s')"
    if "sorted (persisted s) \<and> (\<forall>x\<in>set (persisted s). x \<le> best_accuracy s)"
      "epoch_body env F n1 n2 (batch_size a) e tb vb s = Inl (x, s')"
    for F n1 n2 e s tb vb x s'
    using that(1) epoch_body_Inl[OF that(2)] by (simp add: frame_def persisted_def)
  show "sorted (persisted s') \<and> (\<forall>x\<in>set (persisted s'). x \<le> best_accuracy s')"
    if "sorted (persisted s) \<and> (\<forall>x\<in>set (persisted s). x \<le> best_accuracy s)"
      "epoch_body env F n1 n2 (batch_size a) e tb vb s = Inr s'"
    for F n1 n2 e s tb vb s'
    using that(1) epoch_body_Inr[OF that(2)]
    by (fastforce simp: persisted_def sorted_append py_max_eq)
qed

subsection \<open>The persisted best accuracy\<close>

text \<open>
  Claim C2. The \<^verbatim>\<open>best_accuracy\<close> values stored in the checkpoints that a run writes are
  non-decreasing in the order of writing. Within one epoch the variable
  \<^verbatim>\<open>best_accuracy\<close> never decreases; an epoch that raises leaves it (and the files)
  as they were; and an epoch that changes it has a mean training accuracy that is greater
  than or equal to the previous best, which becomes the new value.
\<close>

theorem persisted_best_accuracy_monotone:
  "sorted (persisted (final (run env a train sp cd))) \<and>
   (epoch_body env F n1 n2 B e tb vb st = Inl (x, s1) \<longrightarrow>
      best_accuracy s1 = best_accuracy st \<and> saved s1 = saved st) \<and>
   (epoch_body env F n1 n2 B e tb vb st = Inr s2 \<longrightarrow>
      (\<exists>acc. mean_accuracies (stdout s2) = mean_accuracies (stdout st) @ [(e, acc)] \<and>
         best_accuracy st \<le> best_accuracy s2 \<and>
         (best_accuracy s2 \<noteq> best_accuracy st \<longrightarrow>
            best_accuracy st \<le> acc \<and> best_accuracy s2 = acc)))"
proof (intro conjI impI)
  show "sorted (persisted (final (run env a train sp cd)))"
    using persisted_inv_run[of env a train sp cd] by blast
next
  assume "epoch_body env F n1 n2 B e tb vb st = Inl (x, s1)"
  then have "frame st s1" by (rule epoch_body_Inl)
  then show "best_accuracy s1 = best_accuracy st" "saved s1 = saved st"
    by (simp_all add: frame_def)
next
  assume "epoch_body env F n1 n2 B e tb vb st = Inr s2"
  from epoch_body_Inr[OF this] obtain acc where
    "mean_accuracies (stdout s2) = mean_accuracies (stdout st) @ [(e, acc)]"
    "best_accuracy s2 = py_max acc (best_accuracy st)"
    by blast
  then show "\<exists>acc. mean_accuracies (stdout s2) = mean_accuracies (stdout st) @ [(e, acc)] \<and>
         best_accuracy st \<le> best_accuracy s2 \<and>
         (best_accuracy s2 \<noteq> best_accuracy st \<longrightarrow>
            best_accuracy st \<le> acc \<and> best_accuracy s2 = acc)"
    by (intro exI[of _ acc]) (auto simp: py_max_def)
qed

lemma example_epoch_value:
  "case example_epoch of Inl _ \<Rightarrow> False
   | Inr s \<Rightarrow> best_accuracy s = 1 \<and> mean_accuracies (stdout s) = [(0, 1)]"
  by code_simp

lemma example_raised_value:
  "case example_raised of Inl (x, s) \<Rightarrow> x = ZeroDivisionError | Inr s \<Rightarrow> False"
  by code_simp


theorem persisted_best_accuracy_monotone_witness:
  "(\<exists>s2. example_epoch = Inr s2 \<and>
      best_accuracy s2 \<noteq> best_accuracy (init_state example_ext) \<and>
      (\<exists>acc. mean_accuracies (stdout s2) =
               mean_accuracies (stdout (init_state example_ext)) @ [(0, acc)] \<and>
             best_accuracy (init_state example_ext) \<le> best_accuracy s2 \<and>
             best_accuracy (init_state example_ext) \<le> acc \<and> best_accuracy s2 = acc)) \<and>
   (\<exists>x s1. example_raised = Inl (x, s1) \<and>
      best_accuracy s1 = best_accuracy (init_state example_ext) \<and>
      saved s1 = saved (init_state example_ext))"
proof -
  from example_epoch_value obtain s2 where
    s2: "example_epoch = Inr s2" and b: "best_accuracy s2 = 1"
    by (auto split: sum.splits)
  from example_raised_value obtain x s1 where s1: "example_raised = Inl (x, s1)"
    by (auto split: sum.splits)
  have b0: "best_accuracy (init_state example_ext) = 0"
    by (simp add: init_state_def)
  from s2 have e2: "epoch_body example_ext 4 200 50 1 0 [(0, 0, [1])] []
      (init_state example_ext) = Inr s2"
    by (simp add: example_epoch_def)
  from s1 have e1: "epoch_body example_ext 0 10 3 1 0 [(0, 0, [1])] []
      (init_state example_ext) = Inl (x, s1)"
    by (simp add: example_raised_def)
  from persisted_best_accuracy_monotone
    [of example_ext example_args "PyList []" None "PyObj 0" 4 200 50 1 0 "[(0, 0, [1])]" "[]"
      "init_state example_ext" x s1 s2] e2 b b0
  have "\<exists>acc. mean_accuracies (stdout s2) =
               mean_accuracies (stdout (init_state example_ext)) @ [(0, acc)] \<and>
             best_accuracy (init_state example_ext) \<le> best_accuracy s2 \<and>
             best_accuracy (init_state example_ext) \<le> acc \<and> best_accuracy s2 = acc"
    by auto
  moreover from persisted_best_accuracy_monotone
    [of example_ext example_args "PyList []" None "PyObj 0" 0 10 3 1 0 "[(0, 0, [1])]" "[]"
      "init_state example_ext" x s1 s2] e1
  have "best_accuracy s1 = best_accuracy (init_state example_ext) \<and>
      saved s1 = saved (init_state example_ext)"
    by blast
  ultimately show ?thesis using s1 s2 b b0 by auto
qed

subsection \<open>The reporting period\<close>

text \<open>
  Claim C3, amended. For a positive batch size, \<^verbatim>\<open>OUTPUT_FREQ\<close> is
  floor(len(train\_dataset) / batch\_size * 0.02); it is computed once, before the epoch
  loop, and the whole run is the epoch loop with that one value; and it is strictly
  positive exactly when len(train\_dataset) is at least 50 times the batch size.
\<close>

theorem OUTPUT_FREQ_once_positive_iff:
  assumes "0 < batch_size a"
  shows "let tds = (fst (split_train xs), cd, data_batch_size a, sp);
             vds = (snd (split_train xs), cd, data_batch_size a, sp);
             n = dataset_len env tds;
             F = \<lfloor>real n / real_of_int (batch_size a) * (2 / 100)\<rfloor>
         in OUTPUT_FREQ n (batch_size a) = Inr F \<and>
            (0 < F \<longleftrightarrow> 50 * batch_size a \<le> int n) \<and>
            run env a (PyList xs) sp cd =
              epochs_from env F tds vds (batch_size a) 0 (nat (epochs a))
                (print_line Training (print_line CreatedDataset
                   (print_line CreatedModel (init_state env))))"
proof -
  let ?n = "dataset_len env (fst (split_train xs), cd, data_batch_size a, sp)"
  let ?B = "batch_size a"
  have F: "OUTPUT_FREQ ?n ?B = Inr \<lfloor>real ?n / real_of_int ?B * (2 / 100)\<rfloor>"
    using assms by (simp add: OUTPUT_FREQ_def py_truediv_def py_int_def)
  with OUTPUT_FREQ_pos[OF assms, of ?n]
  have d: "\<lfloor>real ?n / real_of_int ?B * (2 / 100)\<rfloor> = int ?n div (50 * ?B)"
    by simp
  have "0 < int ?n div (50 * ?B) \<longleftrightarrow> 50 * ?B \<le> int ?n"
    using assms by (simp add: pos_imp_zdiv_pos_iff)
  then have p: "0 < \<lfloor>real ?n / real_of_int ?B * (2 / 100)\<rfloor> \<longleftrightarrow> 50 * ?B \<le> int ?n"
    by (simp only: d)
  have r: "run env a (PyList xs) sp cd =
      epochs_from env \<lfloor>real ?n / real_of_int ?B * (2 / 100)\<rfloor>
        (fst (split_train xs), cd, data_batch_size a, sp)
        (snd (split_train xs), cd, data_batch_size a, sp) ?B 0 (nat (epochs a))
        (print_line Training (print_line CreatedDataset
           (print_line CreatedModel (init_state env))))"
    unfolding run_def Let_def by (simp only: F pyobj.case sum.case)
  from F p r show ?thesis
    unfolding Let_def by (intro conjI)
qed


theorem OUTPUT_FREQ_once_positive_iff_witness:
  "0 < batch_size example_args \<and>
   dataset_len example_ext
     (fst (split_train [0, 1, 2, 3, 4]), PyObj 0, data_batch_size example_args, None) = 200 \<and>
   (let tds = (fst (split_train [0, 1, 2, 3, 4]), PyObj 0, data_batch_size example_args, None);
        vds = (snd (split_train [0, 1, 2, 3, 4]), PyObj 0, data_batch_size example_args, None);
        n = dataset_len example_ext tds;
        F = \<lfloor>real n / real_of_int (batch_size example_args) * (2 / 100)\<rfloor>
    in OUTPUT_FREQ n (batch_size example_args) = Inr F \<and>
       (0 < F \<longleftrightarrow> 50 * batch_size example_args \<le> int n) \<and>
       run example_ext example_args (PyList [0, 1, 2, 3, 4]) None (PyObj 0) =
         epochs_from example_ext F tds vds (batch_size example_args) 0
           (nat (epochs example_args))
           (print_line Training (print_line CreatedDataset
              (print_line CreatedModel (init_state example_ext)))))"
proof -
  have h: "0 < batch_size example_args"
    by (simp add: example_args_def)
  have n: "dataset_len example_ext
     (fst (split_train [0, 1, 2, 3, 4]), PyObj 0, data_batch_size example_args, None) = 200"
    by (simp add: example_ext_def example_args_def split_train_def train_size_eq)
  from h n OUTPUT_FREQ_once_positive_iff[OF h, of "[0, 1, 2, 3, 4]" "PyObj 0" None example_ext]
  show ?thesis by (intro conjI)
qed

text \<open>
  A training set of 2 entries exceeds the batch size 1, and \<^verbatim>\<open>OUTPUT_FREQ\<close> is 0.
\<close>

theorem OUTPUT_FREQ_not_positive_counterexample:
  "(1::int) < int 2 \<and> OUTPUT_FREQ 2 1 = Inr 0"
  by (simp add: OUTPUT_FREQ_pos)

lemma train_batch_zero_freq:
  "\<exists>s. train_batch env 0 n B ep k b st = Inl (ZeroDivisionError, s)"
  by (simp add: train_batch_def Let_def split: prod.splits)

lemma val_batch_zero_freq: "\<exists>x s. val_batch env 0 n B ep k v st = Inl (x, s)"
  by (simp add: val_batch_def Let_def split: prod.splits option.splits)

lemma epoch_body_zero_freq: "\<exists>x s. epoch_body env 0 n1 n2 B ep tb vb st = Inl (x, s)"
proof (cases tb)
  case (Cons b bs)
  obtain s where "train_batch env 0 n1 B ep 0 b
      (st\<lparr>mean_train_acc := 0, train_running_loss := 0, train_running_accuracy := 0,
          val_running_loss := 0, val_running_accuracy := 0\<rparr>) = Inl (ZeroDivisionError, s)"
    using train_batch_zero_freq by blast
  with Cons show ?thesis by (simp add: epoch_body_def)
next
  case Nil
  show ?thesis
  proof (cases vb)
    case Nil': Nil
    with Nil show ?thesis
      by (simp add: epoch_body_def epoch_end_def py_truediv_def)
  next
    case (Cons v vs)
    obtain x s where "val_batch env 0 n2 B ep 0 v (print_line RunningValidation
      (st\<lparr>mean_train_acc := 0, train_running_loss := 0, train_running_accuracy := 0,
          val_running_loss := 0, val_running_accuracy := 0\<rparr>)) = Inl (x, s)"
      using val_batch_zero_freq by blast
    with Nil Cons show ?thesis by (simp add: epoch_body_def)
  qed
qed

text \<open>
  Claim C9. For a positive batch size, len(train\_dataset) / batch\_size * 0.02 is below 1
  exactly when the training set has fewer than 50 * batch\_size entries, and then
  \<^verbatim>\<open>OUTPUT_FREQ\<close> is 0. With \<^verbatim>\<open>OUTPUT_FREQ\<close> 0 the training loop stops in its first
  batch, with the \<^verbatim>\<open>ZeroDivisionError\<close> of the modulo on line 145. Hence a training loop
  that processes a batch and returns, and likewise an epoch that completes, has
  len(train\_dataset) \<open>\<ge>\<close> 50 * batch\_size.
\<close>

theorem zero_OUTPUT_FREQ_raises:
  assumes "0 < B"
  shows "(real n / real_of_int B * (2 / 100) < 1 \<longleftrightarrow> int n < 50 * B) \<and>
   (int n < 50 * B \<longrightarrow> OUTPUT_FREQ n B = Inr 0) \<and>
   train_loop env 0 n B ep 0 (b # bs) st = train_batch env 0 n B ep 0 b st \<and>
   (\<exists>s. train_batch env 0 n B ep 0 b st = Inl (ZeroDivisionError, s)) \<and>
   (OUTPUT_FREQ n B = Inr F \<and> train_loop env F n B ep 0 (b # bs) st = Inr s1
      \<longrightarrow> 50 * B \<le> int n) \<and>
   (OUTPUT_FREQ n B = Inr F \<and> epoch_body env F n nv B ep tb vb st = Inr s2
      \<longrightarrow> 50 * B \<le> int n)"
proof -
  have 1: "real n / real_of_int B * (2 / 100) < 1 \<longleftrightarrow> int n < 50 * B"
  proof -
    have "real n / real_of_int B * (2 / 100) < 1 \<longleftrightarrow> real n < 50 * real_of_int B"
      using assms by (simp add: field_simps)
    also have "\<dots> \<longleftrightarrow> real_of_int (int n) < real_of_int (50 * B)" by simp
    also have "\<dots> \<longleftrightarrow> int n < 50 * B" by (rule of_int_less_iff)
    finally show ?thesis .
  qed
  have F: "OUTPUT_FREQ n B = Inr (int n div (50 * B))"
    using assms by (rule OUTPUT_FREQ_pos)
  have 2: "int n < 50 * B \<longrightarrow> OUTPUT_FREQ n B = Inr 0"
    by (simp add: F div_pos_pos_trivial)
  obtain s where s: "train_batch env 0 n B ep 0 b st = Inl (ZeroDivisionError, s)"
    using train_batch_zero_freq by blast
  then have 3: "train_loop env 0 n B ep 0 (b # bs) st = train_batch env 0 n B ep 0 b st"
    by simp
  have z: "F \<noteq> 0" if "train_loop env F n B ep 0 (b # bs) st = Inr s1"
    using that s by auto
  have z': "F \<noteq> 0" if "epoch_body env F n nv B ep tb vb st = Inr s2"
    using that epoch_body_zero_freq[of env n nv B ep tb vb st] by auto
  have nz: "50 * B \<le> int n" if "OUTPUT_FREQ n B = Inr F" "F \<noteq> 0"
  proof (rule ccontr)
    assume "\<not> 50 * B \<le> int n"
    then have "int n div (50 * B) = 0" by (simp add: div_pos_pos_trivial)
    with that F show False by simp
  qed
  from 1 2 3 s z z' nz show ?thesis by blast
qed

theorem zero_OUTPUT_FREQ_raises_witness:
  "(0::int) < 1 \<and> int 10 < 50 * 1 \<and> OUTPUT_FREQ 10 1 = Inr 0 \<and>
   (\<exists>s. train_batch example_ext 0 10 1 0 0 (0, 0, [1]) (init_state example_ext)
          = Inl (ZeroDivisionError, s)) \<and>
   (\<exists>s1. OUTPUT_FREQ 200 1 = Inr 4 \<and>
      train_loop example_ext 4 200 1 0 0 [(0, 0, [1])] (init_state example_ext) = Inr s1 \<and>
      50 * 1 \<le> int 200) \<and>
   (\<exists>s2. epoch_body example_ext 4 200 50 1 0 [(0, 0, [1])] [] (init_state example_ext)
          = Inr s2)"
proof -
  have h: "(0::int) < 1" by simp
  have a: "int 10 < 50 * 1" by simp
  note t1 = zero_OUTPUT_FREQ_raises[OF h, of 10 example_ext 0 "(0, 0, [1])" "[]"
      "init_state example_ext"]
  from t1 a have b: "OUTPUT_FREQ 10 1 = Inr 0" by blast
  from t1 have c: "\<exists>s. train_batch example_ext 0 10 1 0 0 (0, 0, [1]) (init_state example_ext)
          = Inl (ZeroDivisionError, s)" by blast
  have f: "OUTPUT_FREQ 200 1 = Inr 4" by (simp add: OUTPUT_FREQ_pos)
  obtain s1 where s1: "train_loop example_ext 4 200 1 0 0 [(0, 0, [1])] (init_state example_ext)
      = Inr s1"
    by (simp add: train_batch_def example_ext_def Let_def)
  from example_epoch_value obtain s2 where s2: "example_epoch = Inr s2"
    by (auto split: sum.splits)
  from zero_OUTPUT_FREQ_raises[OF h, of 200 example_ext 0 "(0, 0, [1])" "[]"
      "init_state example_ext" 4 s1] f s1
  have d: "50 * 1 \<le> int 200" by blast
  from h a b c f s1 d s2 show ?thesis
    unfolding example_epoch_def by blast
qed

subsection \<open>Start-up\<close>

text \<open>
  Claim C8. With \<^verbatim>\<open>--sparse-evidences\<close> set and no \<^verbatim>\<open>evidence.pkl\<close> under the
  \<^verbatim>\<open>--data\<close> path, the start-up code raises \<^verbatim>\<open>FileNotFoundError\<close> before \<^verbatim>\<open>run\<close> is
  called: for \<^verbatim>\<open>evidence.pkl\<close> when \<^verbatim>\<open>train.pkl\<close> exists, and already for
  \<^verbatim>\<open>train.pkl\<close> when it does not. Only the loading messages have been printed.
\<close>

theorem missing_evidence_raises:
  assumes "sparse_evidences a"
    and "fs (os_path_join (data a) ''evidence.pkl'') = None"
  shows "main env fs a =
    (case fs (os_path_join (data a) ''train.pkl'') of
       None \<Rightarrow> Inl (FileNotFoundError (os_path_join (data a) ''train.pkl''), [Loading (data a)])
     | Some train \<Rightarrow>
         Inl (FileNotFoundError (os_path_join (data a) ''evidence.pkl''),
              [Loading (data a), LoadingSparseEvidences]))"
  using assms by (simp add: main_def joblib_load_def Let_def split: option.splits)

theorem missing_evidence_raises_witness:
  "sparse_evidences (example_args\<lparr>sparse_evidences := True\<rparr>) \<and>
   example_files (os_path_join (data (example_args\<lparr>sparse_evidences := True\<rparr>))
     ''evidence.pkl'') = None \<and>
   main example_ext example_files (example_args\<lparr>sparse_evidences := True\<rparr>) =
   Inl (FileNotFoundError ''data/evidence.pkl'', [Loading ''data'', LoadingSparseEvidences])"
proof -
  let ?a = "example_args\<lparr>sparse_evidences := True\<rparr>"
  have d: "data ?a = ''data''"
    by (simp add: example_args_def)
  have p: "os_path_join ''data'' ''evidence.pkl'' = ''data/evidence.pkl''"
    "os_path_join ''data'' ''train.pkl'' = ''data/train.pkl''"
    by (simp_all add: os_path_join_def)
  have h1: "sparse_evidences ?a" by simp
  have h2: "example_files (os_path_join (data ?a) ''evidence.pkl'') = None"
    unfolding d p by (simp add: example_files_def)
  have t: "example_files (os_path_join (data ?a) ''train.pkl'') = Some (PyList [0, 1, 2, 3, 4])"
    unfolding d p by (simp add: example_files_def)
  have "main example_ext example_files ?a =
    (case example_files (os_path_join (data ?a) ''train.pkl'') of
       None \<Rightarrow> Inl (FileNotFoundError (os_path_join (data ?a) ''train.pkl''), [Loading (data ?a)])
     | Some train \<Rightarrow>
         Inl (FileNotFoundError (os_path_join (data ?a) ''evidence.pkl''),
              [Loading (data ?a), LoadingSparseEvidences]))"
    using h1 h2 by (rule missing_evidence_raises)
  then have "main example_ext example_files ?a =
    Inl (FileNotFoundError ''data/evidence.pkl'', [Loading ''data'', LoadingSparseEvidences])"
    unfolding t unfolding d p by simp
  with h1 h2 show ?thesis by (intro conjI)
qed

subsection \<open>The accuracy of a batch\<close>

lemma sum_list_indicator:
  "sum_list (map (\<lambda>x. if P x then 1 else 0) xs) = real (length (filter P xs))"
  by (induction xs) simp_all

lemma batch_accuracy_fraction:
  assumes "length p = length y"
  shows "batch_accuracy y p = real (card {i. i < length y \<and> y ! i = p ! i}) / real (length y)"
proof -
  have "sum_list (map (\<lambda>(a, b). if a = b then 1 else 0 :: real) (zip y p)) =
      sum_list (map (\<lambda>x. if fst x = snd x then 1 else 0) (zip y p))"
    by (rule arg_cong[where f = sum_list], rule map_cong) auto
  also have "\<dots> = real (length (filter (\<lambda>x. fst x = snd x) (zip y p)))"
    by (rule sum_list_indicator)
  also have "length (filter (\<lambda>x. fst x = snd x) (zip y p)) =
      card {i. i < length (zip y p) \<and> fst (zip y p ! i) = snd (zip y p ! i)}"
    by (rule length_filter_conv_card)
  also have "{i. i < length (zip y p) \<and> fst (zip y p ! i) = snd (zip y p ! i)} =
      {i. i < length y \<and> y ! i = p ! i}"
    using assms by auto
  finally show ?thesis using assms by (simp add: batch_accuracy_def mean_def)
qed

text \<open>
  Claim C6. For a training batch with at least one label and as many logits as labels,
  the accuracy that the batch adds to \<^verbatim>\<open>mean_train_acc\<close> lies between 0 and 1 and is the
  number of positions where the label equals the rounded sigmoid of the logit, divided by
  the number of positions.
\<close>

theorem batch_accuracy_is_match_fraction:
  assumes "labels \<noteq> []"
    and "length (forward env (net st) True claims evidences) = length labels"
  shows "let y_pred = forward env (net st) True claims evidences;
             accuracy = batch_accuracy labels (predict y_pred)
         in mean_train_acc (final (train_batch env F n B ep k (claims, evidences, labels) st))
              = mean_train_acc st + accuracy \<and>
            0 \<le> accuracy \<and> accuracy \<le> 1 \<and>
            accuracy =
              real (card {i. i < length labels \<and>
                             labels ! i = torch_round (sigmoid (y_pred ! i))})
              / real (length labels)"
proof -
  let ?yp = "forward env (net st) True claims evidences"
  let ?S = "{i. i < length labels \<and> labels ! i = torch_round (sigmoid (?yp ! i))}"
  have "batch_accuracy labels (predict ?yp) =
      real (card {i. i < length labels \<and> labels ! i = predict ?yp ! i}) / real (length labels)"
    by (rule batch_accuracy_fraction) (simp add: predict_def assms)
  also have "{i. i < length labels \<and> labels ! i = predict ?yp ! i} = ?S"
    using assms by (auto simp: predict_def)
  finally have e: "batch_accuracy labels (predict ?yp) = real (card ?S) / real (length labels)" .
  have "?S \<subseteq> {..<length labels}" by auto
  then have "card ?S \<le> card {..<length labels}" by (intro card_mono) simp_all
  then have c: "card ?S \<le> length labels" by simp
  have l: "0 < length labels" using assms by simp
  have b: "0 \<le> real (card ?S) / real (length labels)" "real (card ?S) / real (length labels) \<le> 1"
    using c l by simp_all
  have m: "mean_train_acc (final (train_batch env F n B ep k (claims, evidences, labels) st))
      = mean_train_acc st + batch_accuracy labels (predict ?yp)"
    by (simp add: train_batch_def Let_def print_line_def split: sum.splits)
  from e b m show ?thesis by (simp add: Let_def)
qed

theorem batch_accuracy_is_match_fraction_witness:
  "[1::real] \<noteq> [] \<and>
   length (forward example_ext (net (init_state example_ext)) True 0 0) = length [1::real] \<and>
   batch_accuracy [1] (predict (forward example_ext (net (init_state example_ext)) True 0 0)) = 1 \<and>
   mean_train_acc (final (train_batch example_ext 4 200 1 0 0 (0, 0, [1])
      (init_state example_ext))) = 1"
proof -
  have h1: "[1::real] \<noteq> []" by simp
  have h2: "length (forward example_ext (net (init_state example_ext)) True 0 0) = length [1::real]"
    by (simp add: example_ext_def)
  have v: "batch_accuracy [1] (predict (forward example_ext (net (init_state example_ext)) True 0 0)) = 1"
    by (simp add: example_ext_def init_state_def predict_code batch_accuracy_def mean_def)
  have m0: "mean_train_acc (init_state example_ext) = 0"
    by (simp add: init_state_def)
  from batch_accuracy_is_match_fraction[OF h1 h2, of 4 200 1 0 0] v m0
  have "mean_train_acc (final (train_batch example_ext 4 200 1 0 0 (0, 0, [1])
      (init_state example_ext))) = 1"
    by (simp add: Let_def)
  with h1 h2 v show ?thesis by (intro conjI)
qed

subsection \<open>The validation loop\<close>

lemma val_report_losses_append:
  "val_report_losses (xs @ ys) = val_report_losses xs @ val_report_losses ys"
  by (induction xs rule: val_report_losses.induct) simp_all

lemma mod_pred:
  assumes "0 < j" "0 < (f::nat)"
  shows "j mod f = (if Suc ((j - 1) mod f) = f then 0 else Suc ((j - 1) mod f))"
  using mod_Suc[of "j - 1" f] assms by simp

lemma since_reset_Suc_quiet:
  assumes "0 < f" "\<not> (j mod f = 0 \<and> 0 < j)"
  shows "since_reset f (Suc j) = Suc (since_reset f j)"
proof (cases "j < f")
  case True
  then show ?thesis by (simp add: since_reset_def)
next
  case False
  with assms have j: "f < j" "0 < j" "j mod f \<noteq> 0"
    by (cases "j = f"; auto)+
  with mod_pred[of j f] assms have "j mod f = Suc ((j - 1) mod f)"
    by (simp split: if_splits)
  with j show ?thesis by (simp add: since_reset_def)
qed

lemma since_reset_Suc_report:
  assumes "0 < f" "j mod f = 0" "0 < j"
  shows "since_reset f (Suc j) = 0" "Suc (since_reset f j) = (if j = f then Suc f else f)"
proof -
  from assms have fj: "f \<le> j" by (metis mod_less not_less less_irrefl)
  with assms show "since_reset f (Suc j) = 0" by (simp add: since_reset_def)
  from mod_pred[of j f] assms have "Suc ((j - 1) mod f) = f"
    by (simp split: if_splits)
  with fj show "Suc (since_reset f j) = (if j = f then Suc f else f)"
    by (simp add: since_reset_def)
qed

lemma val_batch_step:
  assumes f: "0 < f" and l: "loss st = Some l"
    and ok: "val_batch env (int f) n B ep j v st = Inr s1"
    and acc: "val_running_loss st = real (since_reset f j) * l"
  shows "loss s1 = Some l \<and> val_running_loss s1 = real (since_reset f (Suc j)) * l \<and>
    val_report_losses (stdout s1) = val_report_losses (stdout st) @
      (if j mod f = 0 \<and> 0 < j then [if j = f then real (Suc f) * l / real f else l] else [])"
proof (cases "j mod f = 0 \<and> 0 < j")
  case False
  then have c: "\<not> (int j mod int f = 0 \<and> 0 < j)"
    by (simp add: zmod_int[symmetric])
  from ok l f c have s1: "s1 = st\<lparr>val_running_accuracy := val_running_accuracy s1,
      val_running_loss := val_running_loss st + l\<rparr>"
    by (auto simp: val_batch_def Let_def split: option.splits prod.splits if_splits)
  then have "loss s1 = loss st" "val_running_loss s1 = val_running_loss st + l"
    "stdout s1 = stdout st"
    by (metis state.select_convs state.surjective state.update_convs)+
  with l acc since_reset_Suc_quiet[OF f False] False show ?thesis
    by (simp add: algebra_simps)
next
  case True
  then have c: "int j mod int f = 0 \<and> 0 < j"
    by (simp add: zmod_int[symmetric])
  from ok l f c obtain p where "s1 = (print_line (ValReport ep p ((val_running_loss st + l) / real f)
        ((val_running_accuracy st + batch_accuracy (snd (snd (the (inputs st))))
            (predict (forward env (net st) False (fst (the (inputs st))) (fst (snd (the (inputs st)))))))
          / real f)
        (recall_score env (snd (snd (the (inputs st))))
            (predict (forward env (net st) False (fst (the (inputs st))) (fst (snd (the (inputs st))))))))
        (st\<lparr>val_running_accuracy := val_running_accuracy st + batch_accuracy (snd (snd (the (inputs st))))
            (predict (forward env (net st) False (fst (the (inputs st))) (fst (snd (the (inputs st)))))),
           val_running_loss := val_running_loss st + l\<rparr>))
        \<lparr>val_running_loss := 0, val_running_accuracy := 0\<rparr>"
    by (auto simp: val_batch_def Let_def split: option.splits prod.splits if_splits sum.splits)
  then have s: "loss s1 = loss st" "val_running_loss s1 = 0"
    "stdout s1 = stdout st @ [ValReport ep p ((val_running_loss st + l) / real f)
        ((val_running_accuracy st + batch_accuracy (snd (snd (the (inputs st))))
            (predict (forward env (net st) False (fst (the (inputs st))) (fst (snd (the (inputs st)))))))
          / real f)
        (recall_score env (snd (snd (the (inputs st))))
            (predict (forward env (net st) False (fst (the (inputs st))) (fst (snd (the (inputs st)))))))]"
    by (simp_all add: print_line_def)
  from True since_reset_Suc_report[OF f, of j] have r: "since_reset f (Suc j) = 0"
    "Suc (since_reset f j) = (if j = f then Suc f else f)" by simp_all
  have "val_running_loss st + l = real (Suc (since_reset f j)) * l"
    by (simp add: acc algebra_simps)
  with r have "(val_running_loss st + l) / real f = (if j = f then real (Suc f) * l / real f else l)"
    using f by simp
  with s l r True show ?thesis
    by (simp add: val_report_losses_append)
qed


lemma val_loop_losses:
  assumes f: "0 < f" and l: "loss st = Some l"
    and ok: "val_loop env (int f) n B ep j vs st = Inr s'"
    and acc: "val_running_loss st = real (since_reset f j) * l"
  shows "loss s' = Some l \<and> val_running_loss s' = real (since_reset f (j + length vs)) * l \<and>
    val_report_losses (stdout s') = val_report_losses (stdout st) @
      map (\<lambda>i. if i = f then real (Suc f) * l / real f else l)
        (filter (\<lambda>i. i mod f = 0 \<and> 0 < i) [j..<j + length vs])"
  using l ok acc
proof (induction vs arbitrary: j st)
  case Nil
  then show ?case by simp
next
  case (Cons v vs)
  from Cons.prems(2) obtain s1 where
    s1: "val_batch env (int f) n B ep j v st = Inr s1" and
    rest: "val_loop env (int f) n B ep (Suc j) vs s1 = Inr s'"
    by (auto split: sum.splits)
  note step = val_batch_step[OF f Cons.prems(1) s1 Cons.prems(3)]
  from step have l1: "loss s1 = Some l"
    and a1: "val_running_loss s1 = real (since_reset f (Suc j)) * l" by simp_all
  note ih = Cons.IH[OF l1 rest a1]
  have "[j..<j + length (v # vs)] = j # [Suc j..<j + length (v # vs)]"
    by (rule upt_conv_Cons) simp
  then have u: "[j..<j + length (v # vs)] = j # [Suc j..<Suc j + length vs]"
    by simp
  from ih step show ?case unfolding u by simp
qed

lemma val_batch_criterion:
  "val_batch (env\<lparr>criterion := c\<rparr>) F n B ep k v st = val_batch env F n B ep k v st"
  by (auto simp: val_batch_def Let_def split: option.splits prod.splits sum.splits)

lemma val_loop_criterion:
  "val_loop (env\<lparr>criterion := c\<rparr>) F n B ep k vs st = val_loop env F n B ep k vs st"
  by (induction vs arbitrary: k st) (simp_all add: val_batch_criterion split: sum.splits)

lemma train_batch_last:
  assumes "train_batch env F n B ep k (c, e, y) st = Inr s1"
  shows "inputs s1 = Some (c, e, y)" "loss s1 = Some (criterion env (forward env (net st) True c e) y)"
  using assms
  by (auto simp: train_batch_def Let_def print_line_def split: if_splits sum.splits)

lemma train_loop_snoc:
  assumes "train_loop env F n B ep k (bs @ [(c, e, y)]) st = Inr s1"
  shows "inputs s1 = Some (c, e, y) \<and>
    (\<exists>m. loss s1 = Some (criterion env (forward env m True c e) y))"
  using assms
proof (induction bs arbitrary: k st)
  case Nil
  then have "train_batch env F n B ep k (c, e, y) st = Inr s1"
    by (simp split: sum.splits)
  from train_batch_last[OF this] show ?case by blast
next
  case (Cons b bs)
  from Cons.prems obtain s0 where
    "train_loop env F n B ep (Suc k) (bs @ [(c, e, y)]) s0 = Inr s1"
    by (auto split: sum.splits)
  then show ?case by (rule Cons.IH)
qed

lemma val_batch_inputs:
  "val_batch env F n B ep k v st = Inr s' \<Longrightarrow> inputs s' = inputs st"
  by (auto simp: val_batch_def Let_def print_line_def split: option.splits if_splits sum.splits)

lemma val_loop_inputs:
  "val_loop env F n B ep k vs st = Inr s' \<Longrightarrow> inputs s' = inputs st"
proof (induction vs arbitrary: k st)
  case Nil
  then show ?case by simp
next
  case (Cons v vs)
  from Cons.prems obtain s1 where
    s1: "val_batch env F n B ep k v st = Inr s1" and
    rest: "val_loop env F n B ep (Suc k) vs s1 = Inr s'"
    by (auto split: sum.splits)
  from Cons.IH[OF rest] val_batch_inputs[OF s1] show ?case by simp
qed

lemma val_batch_ignores: "val_batch env F n B ep k v st = val_batch env F n B ep k v' st"
  by (simp add: val_batch_def)

lemma val_loop_ignores:
  "length vs' = length vs \<Longrightarrow> val_loop env F n B ep k vs st = val_loop env F n B ep k vs' st"
proof (induction vs' vs arbitrary: k st rule: list_induct2)
  case Nil
  show ?case by simp
next
  case (Cons v' vs' v vs)
  show ?case
    using val_batch_ignores[of env F n B ep k v st v'] Cons.IH
    by (simp split: sum.splits)
qed

lemma example_validation_value:
  "case example_validation of Inl _ \<Rightarrow> False
   | Inr s \<Rightarrow> val_running_loss s = 0 \<and> val_report_losses (stdout s) = [2, 1]"
  by code_simp

lemma example_trained_value: "loss example_trained = Some 1 \<and> val_running_loss example_trained = 0 \<and> stdout example_trained = []"
  by code_simp

lemma example_window_value:
  "case example_window of Inl _ \<Rightarrow> False
   | Inr s \<Rightarrow> stdout s = [TrainReport 0 (1 / 50) 2 2 1]"
  by code_simp


lemma example_trained_returns:
  "train_loop example_ext 1 50 1 0 0 ([] @ [(0, 0, [1])]) (init_state example_ext) = Inr example_trained"
  by (simp add: example_trained_def train_batch_def example_ext_def Let_def)

text \<open>
  Claim C10, amended. The validation loop computes no loss: its outcome does not depend on
  the criterion. Each validation batch adds the value of \<^verbatim>\<open>loss\<close> that the last
  training batch left, and \<^verbatim>\<open>loss\<close> stays that value. After k validation batches
  \<^verbatim>\<open>val_running_loss\<close> is that loss times the number of batches since the sum was
  last reset: k times the loss as long as k \<open>\<le>\<close> \<^verbatim>\<open>OUTPUT_FREQ\<close>, and ((k - 1) mod
  \<^verbatim>\<open>OUTPUT_FREQ\<close>) times the loss afterwards. A report is printed at each positive
  batch index that is a multiple of \<^verbatim>\<open>OUTPUT_FREQ\<close>, and every report after the first
  one of the loop shows exactly that loss. (What the first report shows is not part of the
  statement.)
\<close>

theorem validation_loss_is_last_training_loss:
  assumes "0 < f" and "loss st = Some l" and "val_running_loss st = 0"
    and "val_loop env (int f) n B ep 0 vs st = Inr s'"
  shows "val_loop (env\<lparr>criterion := c\<rparr>) (int f) n B ep 0 vs st =
           val_loop env (int f) n B ep 0 vs st \<and>
    loss s' = Some l \<and>
    val_running_loss s' =
      real (if length vs \<le> f then length vs else (length vs - 1) mod f) * l \<and>
    (\<exists>first. val_report_losses (stdout s') = val_report_losses (stdout st) @
        map (\<lambda>i. if i = f then first else l)
          (filter (\<lambda>i. i mod f = 0 \<and> 0 < i) [0..<length vs])) \<and>
    (train_loop env F0 n0 B ep k0 (bs @ [(c0, e0, y0)]) st0 = Inr st \<longrightarrow>
       (\<exists>m. l = criterion env (forward env m True c0 e0) y0))"
proof -
  have a: "val_running_loss st = real (since_reset f 0) * l"
    using assms(3) by (simp add: since_reset_def)
  note r = val_loop_losses[OF assms(1,2,4) a]
  have 1: "loss s' = Some l" using r by simp
  have 2: "val_running_loss s' =
      real (if length vs \<le> f then length vs else (length vs - 1) mod f) * l"
    using r by (simp add: since_reset_def)
  have 3: "\<exists>first. val_report_losses (stdout s') = val_report_losses (stdout st) @
        map (\<lambda>i. if i = f then first else l)
          (filter (\<lambda>i. i mod f = 0 \<and> 0 < i) [0..<length vs])"
    using r by (intro exI[of _ "real (Suc f) * l / real f"]) simp
  have 4: "\<exists>m. l = criterion env (forward env m True c0 e0) y0"
    if "train_loop env F0 n0 B ep k0 (bs @ [(c0, e0, y0)]) st0 = Inr st"
    using train_loop_snoc[OF that] assms(2) by auto
  from 1 2 3 4 val_loop_criterion show ?thesis
    by blast
qed

theorem validation_loss_is_last_training_loss_witness:
  "(0::nat) < 1 \<and> loss example_trained = Some 1 \<and> val_running_loss example_trained = 0 \<and>
   train_loop example_ext 1 50 1 0 0 ([] @ [(0, 0, [1])]) (init_state example_ext)
     = Inr example_trained \<and>
   (\<exists>s'. val_loop example_ext (int 1) 13 1 0 0 example_val_batches example_trained = Inr s' \<and>
      loss s' = Some 1 \<and>
      val_running_loss s' =
        real (if length example_val_batches \<le> 1 then length example_val_batches
              else (length example_val_batches - 1) mod 1) * 1 \<and>
      (\<exists>first. val_report_losses (stdout s') = val_report_losses (stdout example_trained) @
         map (\<lambda>i. if i = 1 then first else 1)
           (filter (\<lambda>i. i mod 1 = 0 \<and> 0 < i) [0..<length example_val_batches])) \<and>
      (\<exists>m. 1 = criterion example_ext (forward example_ext m True 0 0) [1]))"
proof -
  from example_validation_value obtain s' where s': "example_validation = Inr s'"
    by (auto split: sum.splits)
  then have v: "val_loop example_ext (int 1) 13 1 0 0 example_val_batches example_trained
      = Inr s'"
    by (simp add: example_validation_def)
  have h1: "(0::nat) < 1" by simp
  from example_trained_value have h2: "loss example_trained = Some 1"
    and h3: "val_running_loss example_trained = 0" by simp_all
  note t = validation_loss_is_last_training_loss[OF h1 h2 h3 v, of "\<lambda>p y. 0" 1 50 0 "[]" 0 0 "[1]"
      "init_state example_ext"]
  from t example_trained_returns h1 h2 h3 v show ?thesis
    by blast
qed

text \<open>
  With \<^verbatim>\<open>OUTPUT_FREQ\<close> 1, a left-over loss of 1 and three validation batches,
  \<^verbatim>\<open>val_running_loss\<close> ends at 0, not at 3, and the two reports show 2 and 1.
\<close>

theorem validation_running_loss_counterexample:
  "loss example_trained = Some 1 \<and>
   (\<exists>s'. example_validation = Inr s' \<and> val_running_loss s' \<noteq> 3 * 1 \<and>
      val_report_losses (stdout s') = [2, 1])"
proof -
  from example_validation_value obtain s' where "example_validation = Inr s'"
    "val_running_loss s' = 0" "val_report_losses (stdout s') = [2, 1]"
    by (auto split: sum.splits)
  with example_trained_value show ?thesis by auto
qed

lemma val_batch_unbound:
  "inputs st = None \<Longrightarrow> val_batch env F n B ep k v st = Inl (NameError ''inputs'', st)"
  by (simp add: val_batch_def)

lemma val_batch_reads_inputs:
  assumes "inputs st = Some (c, e, y)"
    and "val_batch env F n B ep k v st = Inr s'"
  shows "let predictions = predict (forward env (net st) False c e);
             a = val_running_accuracy st + batch_accuracy y predictions
         in if int k mod F = 0 \<and> 0 < k
            then val_running_accuracy s' = 0 \<and>
                 (\<exists>p lv. stdout s' = stdout st @
                    [ValReport ep p lv (a / real_of_int F) (recall_score env y predictions)])
            else val_running_accuracy s' = a \<and> stdout s' = stdout st"
  using assms
  by (auto simp: val_batch_def Let_def print_line_def
      split: option.splits if_splits sum.splits)

text \<open>
  Claim C4. In every validation step the claims, evidences and labels that are processed
  are those of the variable \<^verbatim>\<open>inputs\<close>: the step raises \<^verbatim>\<open>NameError\<close> when
  \<^verbatim>\<open>inputs\<close> was never assigned, and otherwise the network is run on the claims and
  evidences of \<^verbatim>\<open>inputs\<close>, and the accuracy added to \<^verbatim>\<open>val_running_accuracy\<close> (and
  the accuracy and recall of a report) compare its predictions with the labels of
  \<^verbatim>\<open>inputs\<close>. After a training loop \<^verbatim>\<open>inputs\<close> holds the last training batch, and
  it still does after the validation loop. The batch that the validation loader yields is
  not used: one validation step, the validation loop and the whole epoch have the same
  outcome for any two sequences of validation batches of the same length.
\<close>

theorem validation_ignores_val_inputs:
  assumes "length vbs' = length vbs"
  shows "val_batch env F n B ep k v st = val_batch env F n B ep k v' st \<and>
    val_loop env F n B ep k vbs st = val_loop env F n B ep k vbs' st \<and>
    epoch_body env F n1 n2 B ep tbs vbs st = epoch_body env F n1 n2 B ep tbs vbs' st \<and>
    (train_loop env F n1 B ep k1 (bs @ [b]) st0 = Inr s1 \<longrightarrow>
       inputs s1 = Some b \<and>
       (val_loop env F n2 B ep k2 vbs (print_line RunningValidation s1) = Inr s2 \<longrightarrow>
          inputs s2 = Some b)) \<and>
    (inputs st = None \<longrightarrow>
       val_batch env F n B ep k v st = Inl (NameError ''inputs'', st)) \<and>
    (inputs st = Some (claims, evidences, labels) \<and>
     val_batch env F n B ep k v st = Inr s3 \<longrightarrow>
       (let predictions = predict (forward env (net st) False claims evidences);
            a = val_running_accuracy st + batch_accuracy labels predictions
        in if int k mod F = 0 \<and> 0 < k
           then val_running_accuracy s3 = 0 \<and>
                (\<exists>p lv. stdout s3 = stdout st @
                   [ValReport ep p lv (a / real_of_int F)
                      (recall_score env labels predictions)])
           else val_running_accuracy s3 = a \<and> stdout s3 = stdout st))"
proof -
  note l = val_loop_ignores[OF assms]
  have e: "epoch_body env F n1 n2 B ep tbs vbs st = epoch_body env F n1 n2 B ep tbs vbs' st"
    by (simp add: epoch_body_def l split: sum.splits)
  have i: "inputs s1 = Some b" if "train_loop env F n1 B ep k1 (bs @ [b]) st0 = Inr s1"
    using train_loop_snoc[of env F n1 B ep k1 bs "fst b" "fst (snd b)" "snd (snd b)" st0 s1] that
    by simp
  have j: "inputs s2 = Some b" if "train_loop env F n1 B ep k1 (bs @ [b]) st0 = Inr s1"
    "val_loop env F n2 B ep k2 vbs (print_line RunningValidation s1) = Inr s2"
    using val_loop_inputs[OF that(2)] i[OF that(1)] by (simp add: print_line_def)
  note u = val_batch_unbound[of st env F n B ep k v]
  note r = val_batch_reads_inputs[of st claims evidences labels env F n B ep k v s3]
  from val_batch_ignores[of env F n B ep k v st v'] l[of env F n B ep k st] e i j u r
  show ?thesis by blast
qed

lemma example_revalidation_value:
  "case val_loop example_ext 1 13 1 0 0 [(7, 7, [0])]
          (print_line RunningValidation example_trained) of
     Inl _ \<Rightarrow> False | Inr s \<Rightarrow> True"
  by code_simp

lemma example_trained_fields:
  "net example_trained = 1 \<and> val_running_accuracy example_trained = 0 \<and>
   inputs example_trained = Some (0, 0, [1])"
  by code_simp

lemma example_val_step_value:
  "case val_batch example_ext 1 13 1 0 0 (7, 7, [0]) example_trained of
     Inl _ \<Rightarrow> False | Inr s \<Rightarrow> True"
  by code_simp

theorem validation_ignores_val_inputs_witness:
  "length ([(5, 5, [1])] :: (nat, nat) batch list) =
     length ([(7, 7, [0])] :: (nat, nat) batch list) \<and>
   val_loop example_ext 1 13 1 0 0 [(7, 7, [0])] example_trained =
     val_loop example_ext 1 13 1 0 0 [(5, 5, [1])] example_trained \<and>
   train_loop example_ext 1 50 1 0 0 ([] @ [(0, 0, [1])]) (init_state example_ext)
     = Inr example_trained \<and>
   inputs example_trained = Some (0, 0, [1]) \<and>
   (\<exists>s2. val_loop example_ext 1 13 1 0 0 [(7, 7, [0])]
            (print_line RunningValidation example_trained) = Inr s2 \<and>
          inputs s2 = Some (0, 0, [1])) \<and>
   inputs (init_state example_ext) = None \<and>
   val_batch example_ext 1 13 1 0 0 (7, 7, [0]) (init_state example_ext) =
     Inl (NameError ''inputs'', init_state example_ext) \<and>
   (\<exists>s3. val_batch example_ext 1 13 1 0 0 (7, 7, [0]) example_trained = Inr s3 \<and>
      val_running_accuracy s3 =
        val_running_accuracy example_trained +
        batch_accuracy [1] (predict (forward example_ext (net example_trained) False 0 0)) \<and>
      val_running_accuracy s3 = 1 \<and> stdout s3 = stdout example_trained) \<and>
   batch_accuracy [0] (predict (forward example_ext (net example_trained) False 7 7)) = 0"
proof -
  have h: "length ([(5, 5, [1])] :: (nat, nat) batch list) =
     length ([(7, 7, [0])] :: (nat, nat) batch list)" by simp
  obtain s2 where s2: "val_loop example_ext 1 13 1 0 0 [(7, 7, [0])]
            (print_line RunningValidation example_trained) = Inr s2"
    using example_revalidation_value by (auto split: sum.splits)
  obtain s3 where s3: "val_batch example_ext 1 13 1 0 0 (7, 7, [0]) example_trained = Inr s3"
    using example_val_step_value by (auto split: sum.splits)
  from example_trained_fields have nt: "net example_trained = 1"
    and va: "val_running_accuracy example_trained = 0"
    and it: "inputs example_trained = Some (0, 0, [1])" by simp_all
  have i0: "inputs (init_state example_ext) = None"
    by (simp add: init_state_def)
  note t = validation_ignores_val_inputs[OF h, where env = example_ext and F = 1 and n = 13
      and B = 1 and ep = 0 and k = 0 and st = example_trained and ?n1.0 = 50 and ?n2.0 = 13
      and ?k1.0 = 0 and bs = "[]" and b = "(0, 0, [1])" and ?st0.0 = "init_state example_ext"
      and ?s1.0 = example_trained and ?k2.0 = 0 and ?s2.0 = s2 and v = "(7, 7, [0])"
      and claims = 0 and evidences = 0 and labels = "[1]" and ?s3.0 = s3]
  note t0 = validation_ignores_val_inputs[OF h, where env = example_ext and F = 1 and n = 13
      and B = 1 and ep = 0 and k = 0 and st = "init_state example_ext" and v = "(7, 7, [0])"]
  from t0 i0 have u: "val_batch example_ext 1 13 1 0 0 (7, 7, [0]) (init_state example_ext) =
     Inl (NameError ''inputs'', init_state example_ext)" by blast
  from t it s3 have "let predictions = predict (forward example_ext (net example_trained) False 0 0);
            a = val_running_accuracy example_trained + batch_accuracy [1] predictions
        in if int 0 mod 1 = 0 \<and> (0::nat) < 0
           then val_running_accuracy s3 = 0 \<and>
                (\<exists>p lv. stdout s3 = stdout example_trained @
                   [ValReport 0 p lv (a / real_of_int 1)
                      (recall_score example_ext [1] predictions)])
           else val_running_accuracy s3 = a \<and> stdout s3 = stdout example_trained"
    by blast
  then have a3: "val_running_accuracy s3 =
        val_running_accuracy example_trained +
        batch_accuracy [1] (predict (forward example_ext (net example_trained) False 0 0))"
    and o3: "stdout s3 = stdout example_trained"
    by (simp_all add: Let_def)
  have b1: "batch_accuracy [1] (predict (forward example_ext (net example_trained) False 0 0)) = 1"
    by (simp add: nt example_ext_def predict_code batch_accuracy_def mean_def)
  have b0: "batch_accuracy [0] (predict (forward example_ext (net example_trained) False 7 7)) = 0"
    by (simp add: nt example_ext_def predict_code batch_accuracy_def mean_def)
  from a3 b1 va have v1: "val_running_accuracy s3 = 1" by simp
  from t example_trained_returns s2 h have
    "val_loop example_ext 1 13 1 0 0 [(7, 7, [0])] example_trained =
       val_loop example_ext 1 13 1 0 0 [(5, 5, [1])] example_trained"
    "inputs s2 = Some (0, 0, [1])"
    by blast+
  with h example_trained_returns it s2 i0 u s3 a3 v1 o3 b0 show ?thesis
    by blast
qed

subsection \<open>The training reports\<close>

text \<open>
  What one training step does to the running sums and the output: at a positive batch
  index that is a multiple of \<^verbatim>\<open>OUTPUT_FREQ\<close> it prints the sums divided by
  \<^verbatim>\<open>OUTPUT_FREQ\<close> and resets them; at any other index it only accumulates.
\<close>

lemma train_batch_report:
  assumes "train_batch env F n B ep k (c, e, y) st = Inr s'"
  shows "let y_pred = forward env (net st) True c e;
             l = train_running_loss st + criterion env y_pred y;
             a = train_running_accuracy st + batch_accuracy y (predict y_pred)
         in if int k mod F = 0 \<and> 0 < k
            then train_running_loss s' = 0 \<and> train_running_accuracy s' = 0 \<and>
                 (\<exists>p. stdout s' = stdout st @
                    [TrainReport ep p (l / real_of_int F) (a / real_of_int F)
                       (recall_score env y (predict y_pred))])
            else train_running_loss s' = l \<and> train_running_accuracy s' = a \<and>
                 stdout s' = stdout st"
  using assms
  by (auto simp: train_batch_def Let_def print_line_def split: if_splits sum.splits)

text \<open>
  Claim C5. The sums are reset only after a report, and batch 0 prints none, so the first
  report divides the sums of the \<^verbatim>\<open>OUTPUT_FREQ\<close> + 1 batches 0, ..., \<^verbatim>\<open>OUTPUT_FREQ\<close> by
  \<^verbatim>\<open>OUTPUT_FREQ\<close>. With \<^verbatim>\<open>OUTPUT_FREQ\<close> 1 and two batches that each have loss 1 and
  accuracy 1, the report after the second batch shows loss 2 and accuracy 2: not the mean
  over the window, and no mean of accuracies at all.
\<close>

theorem first_training_report_exceeds_window_mean:
  "criterion example_ext (forward example_ext 0 True 0 0) [1] = 1 \<and>
   criterion example_ext (forward example_ext 1 True 1 1) [1] = 1 \<and>
   batch_accuracy [1] (predict (forward example_ext 0 True 0 0)) = 1 \<and>
   batch_accuracy [1] (predict (forward example_ext 1 True 1 1)) = 1 \<and>
   (\<exists>s. train_loop example_ext 1 50 1 0 0 [(0, 0, [1]), (1, 1, [1])] (init_state example_ext)
           = Inr s \<and>
        stdout s = [TrainReport 0 (1 / 50) 2 2 1])"
proof -
  from example_window_value obtain s where "example_window = Inr s"
    "stdout s = [TrainReport 0 (1 / 50) 2 2 1]"
    by (auto split: sum.splits)
  then show ?thesis
    by (simp add: example_window_def)
      (simp add: example_ext_def predict_code batch_accuracy_def mean_def)
qed

end
